theory Spec2Isabelle
  imports Complex_Main "HOL-Library.Char_ord" "HOL-Library.List_Lexorder"
begin

section \<open>Errors\<close>

text \<open>
  The exceptions the modelled code can raise. A function that can raise returns
  \<open>error + 'a\<close>, with \<open>Inl\<close> for the exception.
\<close>

datatype error = AssertionError | KeyError | ValueError | UnboundLocalError

section \<open>Current-cycle polls: choosing a hypothesis\<close>

text \<open>
  A hypothesis of a current-cycle poll, as the JSON record has it: its label, the
  number of expressed intentions and the dictionary of intentions per candidate
  (an association list, in the order of the JSON object).
\<close>

record hypothesis =
  hypothese :: string
  intentions_exprimees :: rat
  intentions :: "(string \<times> rat) list"

text \<open>\<open>"Christiane Taubira" in intentions.keys()\<close>\<close>

definition has_taubira :: "hypothesis \<Rightarrow> bool" where
  "has_taubira h = (''Christiane Taubira'' \<in> set (map fst (intentions h)))"

text \<open>
  The loop of \<open>select_hypothesis\<close>. The second argument is the loop variable
  \<open>hypothesis\<close> as the previous iteration left it (\<open>None\<close> before the first
  iteration): the statement after the loop reads it, and raises when the loop never ran.
  \<open>pd.json_normalize\<close> only flattens the record into a one-row frame, so the record
  itself stands for that frame.
\<close>

fun select_loop :: "hypothesis list \<Rightarrow> hypothesis option \<Rightarrow> error + hypothesis" where
  "select_loop [] prev = (case prev of None \<Rightarrow> Inl UnboundLocalError | Some h \<Rightarrow> Inr h)"
| "select_loop (h # hs) prev = (if has_taubira h then Inr h else select_loop hs (Some h))"

definition select_hypothesis :: "hypothesis list \<Rightarrow> error + hypothesis" where
  "select_hypothesis poll = select_loop poll None"

section \<open>The harmonized tables\<close>

text \<open>
  The eight political families, in the order of the class attribute
  \<open>political_families\<close>; \<open>other\<close> is the last one.
\<close>

datatype family = farleft | left | green | center | right | farright | souverainistes | other

definition political_families :: "family list" where
  "political_families = [farleft, left, green, center, right, farright, souverainistes, other]"

text \<open>
  A row of the poll table. The frame's columns \<open>nbfarleft\<close>, ..., renamed to the family
  names, are the function \<open>shares\<close>; \<open>'n\<close> is the type of the sample size and \<open>'v\<close>
  the type of a family column: both are floats that may be NaN before the multinomial
  encoding (\<open>rat option\<close>, \<open>None\<close> for NaN, the arithmetic being exact) and integers
  after it. Every timestamp of the tables is a calendar day (the loaders parse dates, and
  the 2022 polls are truncated to their median date), so a timestamp is the number of
  days since 1970-01-01. A \<open>crow\<close> is a row with the \<open>countdown\<close> column.
\<close>

record ('n, 'v) row =
  dateelection :: int
  date :: int
  sondage :: string
  samplesize :: 'n
  shares :: "family \<Rightarrow> 'v"

record ('n, 'v) crow = "('n, 'v) row" +
  countdown :: int

subsection \<open>Calendar\<close>

text \<open>
  The proleptic Gregorian calendar of the timestamps: the civil date of a day number, and
  the day number of a civil date. \<open>year_of\<close> is \<open>Timestamp.year\<close>, and
  \<open>year_start y\<close> is the timestamp the string \<open>f"{y}-01"\<close> is parsed to.
\<close>

definition civil_from_days :: "int \<Rightarrow> int \<times> int \<times> int" where
  "civil_from_days z =
     (let z' = z + 719468;
          era = z' div 146097;
          doe = z' - era * 146097;
          yoe = (doe - doe div 1460 + doe div 36524 - doe div 146096) div 365;
          y = yoe + era * 400;
          doy = doe - (365 * yoe + yoe div 4 - yoe div 100);
          mp = (5 * doy + 2) div 153;
          d = doy - (153 * mp + 2) div 5 + 1;
          m = (if mp < 10 then mp + 3 else mp - 9)
      in (if m \<le> 2 then y + 1 else y, m, d))"

definition days_from_civil :: "int \<Rightarrow> int \<Rightarrow> int \<Rightarrow> int" where
  "days_from_civil y m d =
     (let y' = (if m \<le> 2 then y - 1 else y);
          era = y' div 400;
          yoe = y' - era * 400;
          doy = (153 * (if m > 2 then m - 3 else m + 9) + 2) div 5 + d - 1;
          doe = yoe * 365 + yoe div 4 - yoe div 100 + doy
      in era * 146097 + doe - 719468)"

definition year_of :: "int \<Rightarrow> int" where
  "year_of d = fst (civil_from_days d)"

definition year_start :: "int \<Rightarrow> int" where
  "year_start y = days_from_civil y 1 1"

subsection \<open>Countdown and the residual family\<close>

text \<open>\<open>Series.unique()\<close>: the distinct values in the order of their first appearance.\<close>

definition unique :: "'a list \<Rightarrow> 'a list" where
  "unique xs = rev (remdups (rev xs))"

text \<open>
  \<open>dates_to_idx\<close>: the difference to the reference date, in days. On whole days the
  division by one day is exact, and the caller's \<open>astype(int)\<close> changes nothing.
\<close>

definition dates_to_idx :: "int list \<Rightarrow> int \<Rightarrow> int list" where
  "dates_to_idx timelist reference_date = map (\<lambda>t. reference_date - t) timelist"

definition with_countdown :: "('n, 'v) row \<Rightarrow> int \<Rightarrow> ('n, 'v) crow" where
  "with_countdown r c =
     \<lparr>dateelection = dateelection r, date = date r, sondage = sondage r,
      samplesize = samplesize r, shares = shares r, countdown = c\<rparr>"

text \<open>
  One iteration of the first loop of \<open>_format_polls\<close>: the rows of the election held on
  \<open>d\<close> that are dated on or after January 1st of its year, with their countdown.
\<close>

definition election_frame :: "('n, 'v) row list \<Rightarrow> int \<Rightarrow> ('n, 'v) crow list" where
  "election_frame polls d =
     (let df = filter (\<lambda>r. dateelection r = d \<and> year_start (year_of d) \<le> date r) polls
      in map2 with_countdown df (dates_to_idx (map date df) d))"

text \<open>\<open>pd.concat(dfs)\<close>, one frame per election date, in the order of \<open>unique()\<close>.\<close>

definition concat_dfs :: "('n, 'v) row list \<Rightarrow> ('n, 'v) crow list" where
  "concat_dfs polls = concat (map (election_frame polls) (unique (map dateelection polls)))"

text \<open>\<open>DataFrame.sum(1)\<close> over the given columns: NaN is skipped.\<close>

definition sum_skipna :: "(family \<Rightarrow> rat option) \<Rightarrow> family list \<Rightarrow> rat" where
  "sum_skipna f cols = sum_list (map (\<lambda>p. case f p of None \<Rightarrow> 0 | Some x \<Rightarrow> x) cols)"

text \<open>
  \<open>polls["other"] = 100 - polls.sum(1)\<close>, the frame holding the columns
  \<open>parties_complete[:-1]\<close> at that point.
\<close>

definition compute_other :: "('n, rat option) crow \<Rightarrow> ('n, rat option) crow" where
  "compute_other r =
     r\<lparr>shares := (shares r)(other := Some (100 - sum_skipna (shares r) (butlast political_families)))\<rparr>"

text \<open>
  The table of \<open>_format_polls\<close> once the column \<open>other\<close> is set, before the
  assertion: the harmonized table.
\<close>

definition harmonize :: "('n, rat option) row list \<Rightarrow> ('n, rat option) crow list" where
  "harmonize polls = map compute_other (concat_dfs polls)"

text \<open>
  \<open>np.testing.assert_allclose(actual, desired)\<close> with its default tolerances
  (\<open>rtol = 1e-7\<close>, \<open>atol = 0\<close>): it raises unless every value is within
  \<open>rtol * |desired|\<close> of \<open>desired\<close>.
\<close>

definition rtol :: rat where
  "rtol = 1 / 10 ^ 7"

definition assert_allclose :: "rat list \<Rightarrow> rat \<Rightarrow> error + unit" where
  "assert_allclose actual desired =
     (if list_all (\<lambda>a. \<bar>a - desired\<bar> \<le> rtol * \<bar>desired\<bar>) actual then Inr ()
      else Inl AssertionError)"

section \<open>The multinomial encoder\<close>

text \<open>\<open>round()\<close> of numpy and pandas: to the nearest integer, a tie to the even one.\<close>

definition np_round :: "rat \<Rightarrow> int" where
  "np_round x =
     (if x - of_int \<lfloor>x\<rfloor> < 1 / 2 then \<lfloor>x\<rfloor>
      else if 1 / 2 < x - of_int \<lfloor>x\<rfloor> then \<lfloor>x\<rfloor> + 1
      else if even \<lfloor>x\<rfloor> then \<lfloor>x\<rfloor> else \<lfloor>x\<rfloor> + 1)"

text \<open>
  One cell of \<open>(df[families] / 100).mul(df["samplesize"], axis=0).round().fillna(0).astype(int)\<close>:
  a NaN share or a NaN sample size gives a NaN product, which \<open>fillna\<close> turns into 0.
\<close>

definition share_count :: "rat option \<Rightarrow> rat option \<Rightarrow> int" where
  "share_count share n =
     (case share of
        None \<Rightarrow> 0
      | Some s \<Rightarrow> (case n of None \<Rightarrow> 0 | Some k \<Rightarrow> np_round (s / 100 * k)))"

text \<open>\<open>df[self.political_families].sum(1)\<close> on the integer counts.\<close>

definition sum1 :: "(family \<Rightarrow> int) \<Rightarrow> int" where
  "sum1 f = sum_list (map f political_families)"

definition cast_row :: "(rat option, rat option) crow \<Rightarrow> (int, int) crow" where
  "cast_row r =
     \<lparr>dateelection = dateelection r, date = date r, sondage = sondage r,
      samplesize = sum1 (\<lambda>p. share_count (shares r p) (samplesize r)),
      shares = (\<lambda>p. share_count (shares r p) (samplesize r)),
      countdown = countdown r\<rparr>"

definition cast_as_multinomial :: "(rat option, rat option) crow list \<Rightarrow> (int, int) crow list" where
  "cast_as_multinomial df = map cast_row df"

section \<open>The results table\<close>

text \<open>
  The first-round records of the official results, by election year, as read from the
  results file: a dictionary from the year to the record of that year, itself a
  dictionary of numbers.
\<close>

type_synonym raw_json = "(int \<times> (string \<times> rat) list) list"

text \<open>
  \<open>pd.json_normalize(raw_json[year])[["exprimes"]]\<close>: a missing year raises
  \<open>KeyError\<close>, and so does a record without that column.
\<close>

definition exprimes_of :: "raw_json \<Rightarrow> int \<Rightarrow> error + rat" where
  "exprimes_of raw_json year =
     (case map_of raw_json year of
        None \<Rightarrow> Inl KeyError
      | Some record \<Rightarrow>
          (case map_of record ''exprimes'' of None \<Rightarrow> Inl KeyError | Some v \<Rightarrow> Inr v))"

text \<open>
  The loop of \<open>results_as_multinomial\<close> over the pairs of a year and an election date,
  with its \<open>try\<close>: a \<open>KeyError\<close> is caught and the loop continues, any other
  exception leaves the function.
\<close>

fun collect_jsons :: "raw_json \<Rightarrow> (int \<times> int) list \<Rightarrow> error + (int \<times> rat) list" where
  "collect_jsons raw_json [] = Inr []"
| "collect_jsons raw_json ((year, d) # rest) =
     (case exprimes_of raw_json year of
        Inl e \<Rightarrow> (if e = KeyError then collect_jsons raw_json rest else Inl e)
      | Inr v \<Rightarrow>
          (case collect_jsons raw_json rest of
             Inl e \<Rightarrow> Inl e
           | Inr jsons \<Rightarrow> Inr ((d, v) # jsons)))"

definition election_years :: "('n, 'v, 'z) row_scheme list \<Rightarrow> (int \<times> int) list" where
  "election_years results_raw =
     zip (unique (map (\<lambda>r. year_of (dateelection r)) results_raw))
         (unique (map dateelection results_raw))"

text \<open>
  The left join on \<open>dateelection\<close>, the renaming of \<open>exprimes\<close> to \<open>samplesize\<close>
  and the floor division by 100; an election without a joined record keeps a NaN.
\<close>

definition join_exprimes ::
  "(int \<times> rat) list \<Rightarrow> (rat option, rat option) crow \<Rightarrow> (rat option, rat option) crow" where
  "join_exprimes jsons r =
     r\<lparr>samplesize := map_option (\<lambda>v. of_int \<lfloor>v / 100\<rfloor>) (map_of jsons (dateelection r))\<rparr>"

text \<open>\<open>pd.concat\<close> of an empty list raises \<open>ValueError\<close>.\<close>

definition results_as_multinomial ::
  "raw_json \<Rightarrow> (rat option, rat option) crow list \<Rightarrow> error + (int, int) crow list" where
  "results_as_multinomial raw_json results_raw =
     (case collect_jsons raw_json (election_years results_raw) of
        Inl e \<Rightarrow> Inl e
      | Inr jsons \<Rightarrow>
          if jsons = [] then Inl ValueError
          else Inr (cast_as_multinomial (map (join_exprimes jsons) results_raw)))"

text \<open>
  \<open>_format_polls\<close>, the results file being an argument. It returns \<open>results_raw\<close>,
  \<open>results_mult\<close> and the encoded polls.
\<close>

definition format_polls ::
  "raw_json \<Rightarrow> (rat option, rat option) row list \<Rightarrow>
     error + ((rat option, rat option) crow list \<times> (int, int) crow list \<times> (int, int) crow list)" where
  "format_polls raw_json polls0 =
     (let polls = harmonize polls0
      in case assert_allclose (map (\<lambda>r. sum_skipna (shares r) political_families) polls) 100 of
           Inl e \<Rightarrow> Inl e
         | Inr _ \<Rightarrow>
             (let results_raw = filter (\<lambda>r. sondage r = ''result'') polls;
                  polls' = cast_as_multinomial (filter (\<lambda>r. sondage r \<noteq> ''result'') polls)
              in case results_as_multinomial raw_json results_raw of
                   Inl e \<Rightarrow> Inl e
                 | Inr results_mult \<Rightarrow> Inr (results_raw, results_mult, polls')))"

section \<open>Predictors\<close>

text \<open>
  \<open>_merge_with_data\<close> adds the column \<open>unemployment\<close> to the training tables (a
  \<open>prow\<close>); the frame \<open>_join_with_continuous_predictors\<close> returns also has the columns
  \<open>quarter\<close> and \<open>month\<close> (a \<open>frow\<close>). The predictor is a float: \<open>None\<close> stands
  for NaN and for the outcome of a division by zero.
\<close>

record ('n, 'v) prow = "('n, 'v) crow" +
  unemployment :: "real option"

record ('n, 'v) frow = "('n, 'v) prow" +
  quarter :: "int \<times> int"
  month :: "int \<times> int"

text \<open>\<open>to_period("Q")\<close> and \<open>to_period("M")\<close>: the year with the quarter or the month.\<close>

definition quarter_of :: "int \<Rightarrow> int \<times> int" where
  "quarter_of d = (case civil_from_days d of (y, m, _) \<Rightarrow> (y, (m - 1) div 3 + 1))"

definition month_of :: "int \<Rightarrow> int \<times> int" where
  "month_of d = (case civil_from_days d of (y, m, _) \<Rightarrow> (y, m))"

text \<open>
  \<open>Series.mean()\<close> and \<open>Series.std()\<close> (the sample standard deviation, \<open>ddof = 1\<close>):
  NaN is skipped, and the result is NaN when too few values are left.
\<close>

definition dropna :: "'a option list \<Rightarrow> 'a list" where
  "dropna xs = List.map_filter id xs"

definition series_mean :: "real option list \<Rightarrow> real option" where
  "series_mean xs =
     (let vs = dropna xs
      in if vs = [] then None else Some (sum_list vs / real (length vs)))"

definition series_std :: "real option list \<Rightarrow> real option" where
  "series_std xs =
     (let vs = dropna xs
      in if length vs < 2 then None
         else Some (sqrt (sum_list (map (\<lambda>v. (v - sum_list vs / real (length vs))\<^sup>2) vs)
                          / real (length vs - 1))))"

text \<open>Subtraction and division of floats: NaN propagates.\<close>

definition float_sub :: "real option \<Rightarrow> real option \<Rightarrow> real option" where
  "float_sub x y =
     (case x of None \<Rightarrow> None | Some a \<Rightarrow> (case y of None \<Rightarrow> None | Some b \<Rightarrow> Some (a - b)))"

definition float_div :: "real option \<Rightarrow> real option \<Rightarrow> real option" where
  "float_div x y =
     (case x of
        None \<Rightarrow> None
      | Some a \<Rightarrow> (case y of None \<Rightarrow> None | Some b \<Rightarrow> if b = 0 then None else Some (a / b)))"

section \<open>The model object\<close>

text \<open>
  The attributes of a \<open>PresidentialElectionsModel\<close> that the modelled methods read, as
  \<open>__init__\<close> leaves them. \<open>unemployment_data\<close> is indexed by quarter; the three
  predictor frames are indexed by date and hold the column \<open>unemployment\<close>.
\<close>

record model_self =
  polls_train :: "(int, int) prow list"
  results_mult :: "(int, int) prow list"
  results_oos :: "(int, int) crow list"
  unique_elections :: "int list"
  unique_pollsters :: "string list"
  unemployment_data :: "((int \<times> int) \<times> real option) list"
  continuous_predictors :: "(int \<times> real option) list"
  campaign_preds :: "(int \<times> real option) list"
  results_preds :: "(int \<times> real option) list"

section \<open>Coordinates\<close>

text \<open>
  The dictionary \<open>COORDS\<close>. Its entry \<open>countdown\<close> is the field \<open>countdown_range\<close>:
  the name \<open>countdown\<close> is the column of the tables.
\<close>

record coordinates =
  observations :: "nat list"
  parties_complete :: "family list"
  pollsters :: "string list"
  countdown_range :: "int list"
  elections :: "int list"
  elections_observed :: "int list"

text \<open>
  \<open>Series.factorize()\<close>: the code of every value, that is its position among the
  distinct values, and the distinct values, in the order of their first appearance or,
  with \<open>sort=True\<close>, sorted.
\<close>

fun index_of :: "'a list \<Rightarrow> 'a \<Rightarrow> nat" where
  "index_of [] x = 0"
| "index_of (y # ys) x = (if x = y then 0 else Suc (index_of ys x))"

definition factorize :: "'a list \<Rightarrow> nat list \<times> 'a list" where
  "factorize xs = (map (index_of (unique xs)) xs, unique xs)"

definition factorize_sorted :: "('a :: linorder) list \<Rightarrow> nat list \<times> 'a list" where
  "factorize_sorted xs = (map (index_of (sort (unique xs))) xs, sort (unique xs))"

text \<open>
  \<open>_build_coords\<close>, on the table its caller resolved (\<open>polls\<close>, or
  \<open>self.polls_train\<close> when \<open>polls\<close> is \<open>None\<close>). The maximum of an empty column is
  NaN, on which \<open>np.arange\<close> raises; \<open>np.arange(n)\<close> is empty when \<open>n \<le> 0\<close>.
\<close>

definition build_coords ::
  "('n, 'v, 'z) crow_scheme list \<Rightarrow> error + (nat list \<times> int list \<times> nat list \<times> coordinates)" where
  "build_coords data =
     (case map countdown data of
        [] \<Rightarrow> Inl ValueError
      | c # cs \<Rightarrow>
          (let (pollster_id, pollsters') = factorize_sorted (map sondage data);
               countdown_id = c # cs;
               (election_id, elections') = factorize (map dateelection data)
           in Inr (pollster_id, countdown_id, election_id,
                \<lparr>observations = [0..<length data],
                 parties_complete = political_families,
                 pollsters = pollsters',
                 countdown_range = [0..fold max cs c],
                 elections = elections',
                 elections_observed = butlast elections'\<rparr>)))"

section \<open>The forecast frame\<close>

text \<open>
  What \<open>_generate_oos_data\<close> reads of the posterior: the coordinates \<open>countdown\<close> and
  \<open>elections\<close> of the model the posterior was sampled from.
\<close>

record idata =
  posterior_countdown :: "int list"
  posterior_elections :: "int list"

text \<open>
  \<open>pd.date_range(periods=periods, end=end_date, freq="D")\<close>: the \<open>periods\<close> days
  that end on \<open>end_date\<close>; a negative number of periods raises.
\<close>

definition date_range :: "int \<Rightarrow> int \<Rightarrow> error + int list" where
  "date_range periods end_date =
     (if periods < 0 then Inl ValueError else Inr [end_date - periods + 1..end_date])"

text \<open>
  \<open>np.random.choice(a, size=size')\<close>: the draws of the generator are the argument
  \<open>draws\<close>, the \<open>i\<close>-th value drawn being \<open>a[draws i mod len(a)]\<close>. Drawing from
  an empty array raises.
\<close>

definition choice :: "'a list \<Rightarrow> nat \<Rightarrow> (nat \<Rightarrow> nat) \<Rightarrow> error + 'a list" where
  "choice a size' draws =
     (if a = [] \<and> 0 < size' then Inl ValueError
      else Inr (map (\<lambda>i. a ! (draws i mod length a)) [0..<size']))"

text \<open>A list comprehension whose elements can raise: the first exception wins.\<close>

fun sequence :: "(error + 'a) list \<Rightarrow> error + 'a list" where
  "sequence [] = Inr []"
| "sequence (x # xs) =
     (case x of
        Inl e \<Rightarrow> Inl e
      | Inr v \<Rightarrow> (case sequence xs of Inl e \<Rightarrow> Inl e | Inr vs \<Rightarrow> Inr (v # vs)))"

definition pd_concat :: "'a list list \<Rightarrow> error + 'a list" where
  "pd_concat objs = (if objs = [] then Inl ValueError else Inr (concat objs))"

text \<open>
  A row of the frame \<open>DataFrame.from_dict\<close> builds, with the date
  \<open>oos_data["date"] = new_dates\<close> adds; the frame has no family column yet.
\<close>

definition oos_row :: "int \<times> int \<times> string \<times> int \<times> int \<Rightarrow> (int, unit) crow" where
  "oos_row t = (case t of (c, e, s, n, d) \<Rightarrow>
     \<lparr>dateelection = e, date = d, sondage = s, samplesize = n, shares = (\<lambda>p. ()), countdown = c\<rparr>)"

text \<open>
  The index \<open>new_dates\<close>: \<open>max(countdown.data)\<close> raises on an empty array, once per
  election.
\<close>

definition new_dates_of :: "idata \<Rightarrow> error + int list" where
  "new_dates_of idata =
     (case sequence (map (\<lambda>d. case posterior_countdown idata of
                                  [] \<Rightarrow> Inl ValueError
                                | c # cs \<Rightarrow> date_range (fold max cs c + 1) d)
                      (posterior_elections idata)) of
        Inl e \<Rightarrow> Inl e
      | Inr series \<Rightarrow> pd_concat series)"

text \<open>
  \<open>_generate_oos_data\<close>. The two calls of \<open>np.random.choice\<close> take their draws from
  one generator, the second after the first. \<open>DataFrame.from_dict\<close> raises when its
  arrays differ in length, and so does the assignment of a date column of another length.
\<close>

definition generate_oos_data ::
  "model_self \<Rightarrow> idata \<Rightarrow> (nat \<Rightarrow> nat) \<Rightarrow> error + (int list \<times> (int, unit) crow list)" where
  "generate_oos_data self idata rng =
     (let countdown = posterior_countdown idata;
          elections = posterior_elections idata;
          estimated_days = concat (replicate (length elections) (rev countdown));
          N_estimated_days = length estimated_days
      in case new_dates_of idata of
           Inl e \<Rightarrow> Inl e
         | Inr new_dates \<Rightarrow>
            (let dateelections = concat (map (replicate (length countdown)) (unique_elections self))
             in case choice (unique_pollsters self) N_estimated_days rng of
                  Inl e \<Rightarrow> Inl e
                | Inr sondages \<Rightarrow>
                   (case choice (map samplesize (results_oos self)) N_estimated_days
                           (\<lambda>i. rng (N_estimated_days + i)) of
                      Inl e \<Rightarrow> Inl e
                    | Inr samplesizes \<Rightarrow>
                       if length dateelections \<noteq> N_estimated_days
                          \<or> length new_dates \<noteq> N_estimated_days
                       then Inl ValueError
                       else Inr (new_dates,
                              map oos_row
                                (zip estimated_days (zip dateelections
                                   (zip sondages (zip samplesizes new_dates))))))))"

text \<open>
  \<open>_join_with_continuous_predictors\<close>: the left join with \<open>self.unemployment_data\<close> on
  the quarter, then the assertion that no column holds a NaN (the predictor is the only
  column that can), then the standardization with the mean and the standard deviation of
  \<open>self.continuous_predictors["unemployment"]\<close>.
\<close>

definition joined_unemployment :: "model_self \<Rightarrow> int \<Rightarrow> real option" where
  "joined_unemployment self d =
     (case map_of (unemployment_data self) (quarter_of d) of None \<Rightarrow> None | Some u \<Rightarrow> u)"

definition join_unemployment :: "model_self \<Rightarrow> (int, 'v) crow \<Rightarrow> (int, 'v) frow" where
  "join_unemployment self r =
     \<lparr>dateelection = dateelection r, date = date r, sondage = sondage r,
      samplesize = samplesize r, shares = shares r, countdown = countdown r,
      unemployment = joined_unemployment self (date r),
      quarter = quarter_of (date r), month = month_of (date r)\<rparr>"

definition stdz_unemployment :: "model_self \<Rightarrow> real option \<Rightarrow> real option" where
  "stdz_unemployment self u =
     float_div (float_sub u (series_mean (map snd (continuous_predictors self))))
       (series_std (map snd (continuous_predictors self)))"

definition join_with_continuous_predictors ::
  "model_self \<Rightarrow> (int, 'v) crow list \<Rightarrow> error + (int, 'v) frow list" where
  "join_with_continuous_predictors self oos_data =
     (let joined = map (join_unemployment self) oos_data
      in if list_ex (\<lambda>r. unemployment r = None) joined then Inl AssertionError
         else Inr (map (\<lambda>r. r\<lparr>unemployment := stdz_unemployment self (unemployment r)\<rparr>) joined))"

text \<open>
  The first lines of \<open>forecast_election\<close>: the frame, joined, with a placeholder 0 in
  every family column.
\<close>

definition placeholder :: "(int, unit) frow \<Rightarrow> (int, int) frow" where
  "placeholder r =
     \<lparr>dateelection = dateelection r, date = date r, sondage = sondage r,
      samplesize = samplesize r, shares = (\<lambda>p. 0), countdown = countdown r,
      unemployment = unemployment r, quarter = quarter r, month = month r\<rparr>"

definition forecast_data_of ::
  "model_self \<Rightarrow> idata \<Rightarrow> (nat \<Rightarrow> nat) \<Rightarrow> error + (int list \<times> (int, int) frow list)" where
  "forecast_data_of self idata rng =
     (case generate_oos_data self idata rng of
        Inl e \<Rightarrow> Inl e
      | Inr (new_dates, oos_data) \<Rightarrow>
          (case join_with_continuous_predictors self oos_data of
             Inl e \<Rightarrow> Inl e
           | Inr oos_data' \<Rightarrow> Inr (new_dates, map placeholder oos_data')))"

section \<open>The model\<close>

text \<open>
  The data containers and the arrays \<open>non_competing_parties\<close> of
  \<open>_build_data_containers\<close>, and what \<open>build_model\<close> fixes before any random
  variable is declared: the coordinates, the containers and these arrays.
\<close>

record data_containers =
  election_idx :: "nat list"
  pollster_idx :: "nat list"
  countdown_idx :: "int list"
  stdz_unemp :: "real option list"
  election_unemp :: "real option list"
  observed_N :: "int list"
  observed_polls :: "int list list"
  results_N :: "int list"
  observed_results :: "int list list"

record non_competing =
  polls_multiplicative :: "int list list"
  polls_additive :: "int list list"
  results :: "int list list"

record pm_model =
  coords :: coordinates
  containers :: data_containers
  non_competing_parties :: non_competing

text \<open>\<open>df[self.political_families]\<close>, row by row.\<close>

definition family_columns :: "('n, 'v, 'z) row_scheme list \<Rightarrow> 'v list list" where
  "family_columns df = map (\<lambda>r. map (shares r) political_families) df"

text \<open>\<open>astype(bool).astype(int)\<close> and \<open>replace(to_replace=..., value=...)\<close> on one cell.\<close>

definition astype_bool_int :: "int \<Rightarrow> int" where
  "astype_bool_int x = (if x \<noteq> 0 then 1 else 0)"

definition replace :: "int \<Rightarrow> int \<Rightarrow> int \<Rightarrow> int" where
  "replace to_replace val x = (if x = to_replace then val else x)"

text \<open>
  \<open>_build_data_containers\<close>, on the tables its caller resolved: \<open>ids\<close> are the
  attributes \<open>pollster_id\<close>, \<open>countdown_id\<close> and \<open>election_id\<close> that
  \<open>build_model\<close> has just set.
\<close>

definition build_data_containers ::
  "model_self \<Rightarrow> nat list \<times> int list \<times> nat list \<Rightarrow> (int, int, 'z) prow_scheme list \<Rightarrow>
     real option list \<Rightarrow> data_containers \<times> non_competing" where
  "build_data_containers self ids polls campaign_unemployment =
     (case ids of (pollster_id, countdown_id, election_id) \<Rightarrow>
        (let is_here = map (map astype_bool_int) (family_columns polls)
         in (\<lparr>election_idx = election_id,
              pollster_idx = pollster_id,
              countdown_idx = countdown_id,
              stdz_unemp = campaign_unemployment,
              election_unemp = map snd (results_preds self),
              observed_N = map samplesize polls,
              observed_polls = family_columns polls,
              results_N = map samplesize (results_oos self),
              observed_results = family_columns (results_oos self)\<rparr>,
             \<lparr>polls_multiplicative = is_here,
              polls_additive = map (map (replace 1 0 \<circ> replace 0 (- 10))) is_here,
              results = map (map (replace 1 0 \<circ> replace 0 (- 10) \<circ> astype_bool_int))
                          (family_columns (results_mult self))\<rparr>)))"

definition build_model_on ::
  "model_self \<Rightarrow> (int, int, 'z) prow_scheme list \<Rightarrow> real option list \<Rightarrow> error + pm_model" where
  "build_model_on self polls campaign_unemployment =
     (case build_coords polls of
        Inl e \<Rightarrow> Inl e
      | Inr (pollster_id, countdown_id, election_id, COORDS) \<Rightarrow>
          (case build_data_containers self (pollster_id, countdown_id, election_id) polls
                  campaign_unemployment of
             (data_containers', non_competing_parties') \<Rightarrow>
               Inr \<lparr>coords = COORDS, containers = data_containers',
                    non_competing_parties = non_competing_parties'\<rparr>))"

text \<open>
  \<open>build_model\<close>: an argument that is \<open>None\<close> stands for the training table.
\<close>

definition build_model ::
  "model_self \<Rightarrow> (int, int, 'z) prow_scheme list option \<Rightarrow>
     (int, int, 'y) prow_scheme list option \<Rightarrow> error + pm_model" where
  "build_model self polls continuous_predictors' =
     (let campaign_unemployment =
            (case continuous_predictors' of
               None \<Rightarrow> map snd (campaign_preds self)
             | Some t \<Rightarrow> map unemployment t)
      in case polls of
           None \<Rightarrow> build_model_on self (polls_train self) campaign_unemployment
         | Some polls' \<Rightarrow> build_model_on self polls' campaign_unemployment)"

text \<open>
  \<open>forecast_election\<close>, up to the model it builds on the synthetic frame: it returns
  the index \<open>new_dates\<close> of the predictions and that model.
\<close>

definition forecast_election ::
  "model_self \<Rightarrow> idata \<Rightarrow> (nat \<Rightarrow> nat) \<Rightarrow> error + (int list \<times> pm_model)" where
  "forecast_election self idata rng =
     (case forecast_data_of self idata rng of
        Inl e \<Rightarrow> Inl e
      | Inr (new_dates, forecast_data) \<Rightarrow>
          (case build_model self (Some forecast_data) (Some forecast_data) of
             Inl e \<Rightarrow> Inl e
           | Inr forecast_model \<Rightarrow> Inr (new_dates, forecast_model)))"

section \<open>The likelihoods\<close>

text \<open>
  The values of the named variables of the model that the two likelihoods read, as one
  draw gives them: a tensor is a nested list, in the order of its \<open>dims\<close>
  (\<open>election_party_baseline\<close> is elections by families, \<open>house_effects\<close> pollsters by
  families, \<open>house_election_effects\<close> pollsters by families by elections,
  \<open>party_time_effect\<close> countdown by families, \<open>election_party_time_effect\<close> countdown
  by families by elections). The Gaussian-process basis and the priors that produce
  these values are outside this development.
\<close>

record params =
  party_baseline :: "real list"
  election_party_baseline :: "real list list"
  poll_bias :: "real list"
  house_effects :: "real list list"
  house_election_effects :: "real list list list"
  unemployment_effect :: "real list"
  party_time_effect :: "real list list"
  election_party_time_effect :: "real list list list"
  concentration_polls :: real
  concentration_results :: real

text \<open>
  Sums and products that involve a data container are float operations: a NaN of the
  predictor propagates.
\<close>

definition float_add :: "real option \<Rightarrow> real option \<Rightarrow> real option" where
  "float_add x y =
     (case x of None \<Rightarrow> None | Some a \<Rightarrow> (case y of None \<Rightarrow> None | Some b \<Rightarrow> Some (a + b)))"

definition float_mul :: "real option \<Rightarrow> real option \<Rightarrow> real option" where
  "float_mul x y =
     (case x of None \<Rightarrow> None | Some a \<Rightarrow> (case y of None \<Rightarrow> None | Some b \<Rightarrow> Some (a * b)))"

text \<open>Indexing with an integer of a data container: a negative index counts from the end.\<close>

definition np_take :: "'a list \<Rightarrow> int \<Rightarrow> 'a" where
  "np_take xs i = (if 0 \<le> i then xs ! nat i else xs ! nat (int (length xs) + i))"

text \<open>\<open>aet.nnet.softmax\<close> of one row.\<close>

definition softmax :: "real option list \<Rightarrow> real option list" where
  "softmax xs =
     (if list_ex (\<lambda>x. x = None) xs then map (\<lambda>x. None) xs
      else map (\<lambda>x. Some (exp (the x) / sum_list (map (\<lambda>y. exp (the y)) xs))) xs)"

text \<open>
  The poll section of \<open>build_model\<close>, cell by cell of the arrays of shape observations
  by families: \<open>latent_mu_0\<close> is the first assignment of \<open>latent_mu\<close> and
  \<open>latent_mu\<close> the second, which adds the array \<open>polls_additive\<close>. The shapes are the
  declared \<open>dims\<close>; the errors of a shape that does not fit are not modelled.
\<close>

definition latent_mu_0 :: "params \<Rightarrow> pm_model \<Rightarrow> real option list list" where
  "latent_mu_0 \<theta> M =
     map (\<lambda>i. map (\<lambda>p.
            float_add
              (Some (party_baseline \<theta> ! p
                     + election_party_baseline \<theta> ! (election_idx (containers M) ! i) ! p
                     + np_take (party_time_effect \<theta>) (countdown_idx (containers M) ! i) ! p
                     + np_take (election_party_time_effect \<theta>) (countdown_idx (containers M) ! i)
                         ! p ! (election_idx (containers M) ! i)))
              (float_mul (stdz_unemp (containers M) ! i) (Some (unemployment_effect \<theta> ! p))))
          [0..<length (parties_complete (coords M))])
       [0..<length (observations (coords M))]"

definition latent_mu :: "params \<Rightarrow> pm_model \<Rightarrow> real option list list" where
  "latent_mu \<theta> M =
     map (\<lambda>i. map (\<lambda>p.
            float_add (latent_mu_0 \<theta> M ! i ! p)
              (Some (real_of_int (polls_additive (non_competing_parties M) ! i ! p))))
          [0..<length (parties_complete (coords M))])
       [0..<length (observations (coords M))]"

definition latent_popularity :: "params \<Rightarrow> pm_model \<Rightarrow> real option list list" where
  "latent_popularity \<theta> M = map softmax (latent_mu \<theta> M)"

definition noisy_mu :: "params \<Rightarrow> pm_model \<Rightarrow> real option list list" where
  "noisy_mu \<theta> M =
     map (\<lambda>i. map (\<lambda>p.
            float_add
              (float_add
                 (float_add (latent_mu \<theta> M ! i ! p) (Some (poll_bias \<theta> ! p)))
                 (Some (house_effects \<theta> ! (pollster_idx (containers M) ! i) ! p)))
              (Some (house_election_effects \<theta> ! (pollster_idx (containers M) ! i) ! p
                       ! (election_idx (containers M) ! i)
                     * real_of_int (polls_multiplicative (non_competing_parties M) ! i ! p))))
          [0..<length (parties_complete (coords M))])
       [0..<length (observations (coords M))]"

definition noisy_popularity :: "params \<Rightarrow> pm_model \<Rightarrow> real option list list" where
  "noisy_popularity \<theta> M = map softmax (noisy_mu \<theta> M)"

text \<open>
  An observed \<open>pm.DirichletMultinomial\<close> node: its concentration vectors \<open>a\<close>, its
  numbers of trials \<open>n\<close> and the observed counts.
\<close>

record dm_node =
  dm_a :: "real option list list"
  dm_n :: "int list"
  dm_observed :: "int list list"

definition N_approve :: "params \<Rightarrow> pm_model \<Rightarrow> dm_node" where
  "N_approve \<theta> M =
     \<lparr>dm_a = map (map (float_mul (Some (concentration_polls \<theta>)))) (noisy_popularity \<theta> M),
      dm_n = observed_N (containers M),
      dm_observed = observed_polls (containers M)\<rparr>"

text \<open>
  The result section: \<open>party_time_effect[0]\<close>,
  \<open>election_party_time_effect[0].T\<close> (elections by families), and the node \<open>R\<close> on
  \<open>latent_pop_t0[:-1]\<close>.
\<close>

definition latent_mu_t0 :: "params \<Rightarrow> pm_model \<Rightarrow> real option list list" where
  "latent_mu_t0 \<theta> M =
     map (\<lambda>e. map (\<lambda>p.
            float_add
              (float_add
                 (Some (party_baseline \<theta> ! p
                        + election_party_baseline \<theta> ! e ! p
                        + party_time_effect \<theta> ! 0 ! p
                        + election_party_time_effect \<theta> ! 0 ! p ! e))
                 (float_mul (election_unemp (containers M) ! e) (Some (unemployment_effect \<theta> ! p))))
              (Some (real_of_int (results (non_competing_parties M) ! e ! p))))
          [0..<length (parties_complete (coords M))])
       [0..<length (elections (coords M))]"

definition latent_pop_t0 :: "params \<Rightarrow> pm_model \<Rightarrow> real option list list" where
  "latent_pop_t0 \<theta> M = map softmax (latent_mu_t0 \<theta> M)"

definition R :: "params \<Rightarrow> pm_model \<Rightarrow> dm_node" where
  "R \<theta> M =
     \<lparr>dm_a = map (map (float_mul (Some (concentration_results \<theta>)))) (butlast (latent_pop_t0 \<theta> M)),
      dm_n = results_N (containers M),
      dm_observed = observed_results (containers M)\<rparr>"

section \<open>Sample tables\<close>

text \<open>A poll of the 2017 campaign (election of 2017-04-23, day 17279), nine days ahead.\<close>

definition poll_2017_a :: "(rat option, rat option) row" where
  "poll_2017_a =
     \<lparr>dateelection = 17279, date = 17270, sondage = ''Ifop'', samplesize = Some 1000,
      shares = (\<lambda>p. case p of farleft \<Rightarrow> Some 19 | left \<Rightarrow> Some (15 / 2) | green \<Rightarrow> Some 0
                 | center \<Rightarrow> Some (47 / 2) | right \<Rightarrow> Some (39 / 2) | farright \<Rightarrow> Some (45 / 2)
                 | souverainistes \<Rightarrow> None | other \<Rightarrow> None)\<rparr>"

text \<open>
  The result row of that election, dated on the eve of the vote and on the day of the
  vote; a poll dated two days after the vote; the empty result row \<open>_load_polls\<close> adds
  for the election of 2022-04-10 (day 19092); a results file that knows 2017 only; and a
  table of two result rows.
\<close>

definition result_2017 :: "(rat option, rat option) row" where
  "result_2017 =
     \<lparr>dateelection = 17279, date = 17278, sondage = ''result'', samplesize = None,
      shares = (\<lambda>p. case p of farleft \<Rightarrow> Some (1958 / 100) | left \<Rightarrow> Some (636 / 100)
                 | green \<Rightarrow> Some 0 | center \<Rightarrow> Some (2401 / 100) | right \<Rightarrow> Some (2001 / 100)
                 | farright \<Rightarrow> Some (2130 / 100) | souverainistes \<Rightarrow> Some (470 / 100)
                 | other \<Rightarrow> None)\<rparr>"

definition poll_2017_late :: "(rat option, rat option) row" where
  "poll_2017_late = poll_2017_a\<lparr>date := 17281\<rparr>"

definition result_2022 :: "(rat option, rat option) row" where
  "result_2022 =
     \<lparr>dateelection = 19092, date = 19092, sondage = ''result'', samplesize = None,
      shares = (\<lambda>p. None)\<rparr>"

definition raw_json_2017 :: raw_json where
  "raw_json_2017 = [(2017, [(''inscrits'', 47582183), (''exprimes'', 36054394)])]"

definition result_2017_day :: "(rat option, rat option) row" where
  "result_2017_day = result_2017\<lparr>date := 17279\<rparr>"

definition sample_results_raw :: "(rat option, rat option) crow list" where
  "sample_results_raw =
     [compute_other (with_countdown result_2017_day 0), compute_other (with_countdown result_2022 0)]"

text \<open>
  A model object with three training polls of two elections and two pollsters, the
  posterior coordinates of the model built on them, and two rows of a forecast frame.
\<close>

definition sample_polls_train :: "(int, int) prow list" where
  "sample_polls_train =
     [\<lparr>dateelection = 17279, date = 17277, sondage = ''Ifop'', samplesize = 1000,
       shares = (\<lambda>p. case p of center \<Rightarrow> 240 | farright \<Rightarrow> 220 | other \<Rightarrow> 0 | _ \<Rightarrow> 108),
       countdown = 2, unemployment = Some (95 / 10)\<rparr>,
      \<lparr>dateelection = 17279, date = 17278, sondage = ''BVA'', samplesize = 1200,
       shares = (\<lambda>p. case p of center \<Rightarrow> 290 | farright \<Rightarrow> 270 | green \<Rightarrow> 0 | _ \<Rightarrow> 128),
       countdown = 1, unemployment = Some (95 / 10)\<rparr>,
      \<lparr>dateelection = 19092, date = 19090, sondage = ''Ifop'', samplesize = 1000,
       shares = (\<lambda>p. case p of center \<Rightarrow> 265 | farright \<Rightarrow> 225 | _ \<Rightarrow> 85),
       countdown = 2, unemployment = Some (74 / 10)\<rparr>]"

definition sample_results_oos :: "(int, int) crow list" where
  "sample_results_oos =
     [\<lparr>dateelection = 17279, date = 17279, sondage = ''result'', samplesize = 360544,
       shares = (\<lambda>p. case p of farleft \<Rightarrow> 70594 | left \<Rightarrow> 22931 | green \<Rightarrow> 0 | center \<Rightarrow> 86566
                  | right \<Rightarrow> 72145 | farright \<Rightarrow> 76796 | souverainistes \<Rightarrow> 16946
                  | other \<Rightarrow> 14566),
       countdown = 0\<rparr>]"

definition sample_results_mult :: "(int, int) prow list" where
  "sample_results_mult =
     [\<lparr>dateelection = 17279, date = 17279, sondage = ''result'', samplesize = 360544,
       shares = (\<lambda>p. case p of farleft \<Rightarrow> 70594 | left \<Rightarrow> 22931 | green \<Rightarrow> 0 | center \<Rightarrow> 86566
                  | right \<Rightarrow> 72145 | farright \<Rightarrow> 76796 | souverainistes \<Rightarrow> 16946
                  | other \<Rightarrow> 14566),
       countdown = 0, unemployment = Some (95 / 10)\<rparr>,
      \<lparr>dateelection = 19092, date = 19092, sondage = ''result'', samplesize = 0,
       shares = (\<lambda>p. 0), countdown = 0, unemployment = Some (74 / 10)\<rparr>]"

definition sample_self :: model_self where
  "sample_self =
     \<lparr>polls_train = sample_polls_train,
      results_mult = sample_results_mult,
      results_oos = sample_results_oos,
      unique_elections = [17279, 19092],
      unique_pollsters = [''Ifop'', ''BVA''],
      unemployment_data = [((2017, 1), Some (96 / 10)), ((2017, 2), Some (95 / 10)),
                           ((2022, 1), Some (73 / 10)), ((2022, 2), Some (74 / 10))],
      continuous_predictors = [(17277, Some 9), (17278, Some 10), (19090, None), (19091, Some 11)],
      campaign_preds = [(17277, Some (- 1)), (17278, Some 0), (19090, None)],
      results_preds = [(17279, Some (1 / 2)), (19092, Some (- 1 / 2))]\<rparr>"

definition sample_idata :: idata where
  "sample_idata = \<lparr>posterior_countdown = [0, 1, 2], posterior_elections = [17279, 19092]\<rparr>"

definition oos_row_2022 :: "(int, unit) crow" where
  "oos_row_2022 = oos_row (2, 19092, ''Ifop'', 360544, 19090)"

definition oos_row_2011 :: "(int, unit) crow" where
  "oos_row_2011 = oos_row (2, 15002, ''Ifop'', 360544, 15000)"

text \<open>
  A draw of the variables for two elections, two pollsters and a countdown range of three
  days; and the shares a training poll can come from, the family \<open>other\<close> having a
  share of 0.04.
\<close>

definition sample_params :: params where
  "sample_params =
     \<lparr>party_baseline = [1, 2, 3, 4, 5, 6, 7, 8],
      election_party_baseline = replicate 2 (replicate 8 (1 / 4)),
      poll_bias = replicate 8 (1 / 10),
      house_effects = replicate 2 (replicate 8 (1 / 20)),
      house_election_effects = replicate 2 (replicate 8 (replicate 2 (1 / 40))),
      unemployment_effect = replicate 8 2,
      party_time_effect = replicate 3 (replicate 8 (1 / 8)),
      election_party_time_effect = replicate 3 (replicate 8 (replicate 2 (1 / 16))),
      concentration_polls = 1000,
      concentration_results = 900\<rparr>"

definition sample_share_row :: "(rat option, rat option) crow" where
  "sample_share_row =
     \<lparr>dateelection = 17279, date = 17277, sondage = ''Ifop'', samplesize = Some 1000,
      shares = (\<lambda>p. case p of center \<Rightarrow> Some 24 | farright \<Rightarrow> Some 22 | other \<Rightarrow> Some (1 / 25)
                 | _ \<Rightarrow> Some (54 / 5)),
      countdown = 2\<rparr>"

section \<open>Verification: the choice of a hypothesis\<close>

lemma select_loop_eq:
  "select_loop hs prev =
     (case find has_taubira hs of
        Some h \<Rightarrow> Inr h
      | None \<Rightarrow> (case (if hs = [] then prev else Some (last hs)) of
                   None \<Rightarrow> Inl UnboundLocalError
                 | Some h \<Rightarrow> Inr h))"
  by (induction hs arbitrary: prev) (auto split: option.splits)

text \<open>
  Claim C4, as the code has it: on a non-empty list of hypotheses,
  \<open>select_hypothesis\<close> returns the first hypothesis whose intentions name
  Christiane Taubira when there is one, and otherwise the last hypothesis of the list
  (the value the loop variable holds when the loop ends).
\<close>

theorem select_hypothesis_taubira_or_last:
  "poll \<noteq> [] \<Longrightarrow>
   select_hypothesis poll =
     Inr (case find has_taubira poll of Some h \<Rightarrow> h | None \<Rightarrow> last poll)"
  by (simp add: select_hypothesis_def select_loop_eq split: option.splits)

theorem select_hypothesis_taubira_or_last_witness:
  "[\<lparr>hypothese = ''H1'', intentions_exprimees = 900, intentions = [(''Emmanuel Macron'', 24)]\<rparr>,
    \<lparr>hypothese = ''H2'', intentions_exprimees = 900,
      intentions = [(''Emmanuel Macron'', 23), (''Christiane Taubira'', 4)]\<rparr>,
    \<lparr>hypothese = ''H3'', intentions_exprimees = 900, intentions = [(''Emmanuel Macron'', 25)]\<rparr>] \<noteq> []
   \<and> select_hypothesis
       [\<lparr>hypothese = ''H1'', intentions_exprimees = 900, intentions = [(''Emmanuel Macron'', 24)]\<rparr>,
        \<lparr>hypothese = ''H2'', intentions_exprimees = 900,
          intentions = [(''Emmanuel Macron'', 23), (''Christiane Taubira'', 4)]\<rparr>,
        \<lparr>hypothese = ''H3'', intentions_exprimees = 900, intentions = [(''Emmanuel Macron'', 25)]\<rparr>]
     = Inr \<lparr>hypothese = ''H2'', intentions_exprimees = 900,
          intentions = [(''Emmanuel Macron'', 23), (''Christiane Taubira'', 4)]\<rparr>"
  using select_hypothesis_taubira_or_last
    [of "[\<lparr>hypothese = ''H1'', intentions_exprimees = 900, intentions = [(''Emmanuel Macron'', 24)]\<rparr>,
          \<lparr>hypothese = ''H2'', intentions_exprimees = 900,
            intentions = [(''Emmanuel Macron'', 23), (''Christiane Taubira'', 4)]\<rparr>,
          \<lparr>hypothese = ''H3'', intentions_exprimees = 900, intentions = [(''Emmanuel Macron'', 25)]\<rparr>]"]
  by (simp add: has_taubira_def)

text \<open>
  The claim as the specification words it (``otherwise returns the first hypothesis'')
  fails on a poll with two hypotheses, neither naming the reference candidate: the
  second one is returned.
\<close>

theorem select_hypothesis_first_counterexample:
  "\<not> has_taubira \<lparr>hypothese = ''H1'', intentions_exprimees = 900,
                   intentions = [(''Emmanuel Macron'', 24)]\<rparr>
   \<and> \<not> has_taubira \<lparr>hypothese = ''H2'', intentions_exprimees = 950,
                     intentions = [(''Emmanuel Macron'', 25)]\<rparr>
   \<and> select_hypothesis
       [\<lparr>hypothese = ''H1'', intentions_exprimees = 900, intentions = [(''Emmanuel Macron'', 24)]\<rparr>,
        \<lparr>hypothese = ''H2'', intentions_exprimees = 950, intentions = [(''Emmanuel Macron'', 25)]\<rparr>]
     \<noteq> Inr (hd
       [\<lparr>hypothese = ''H1'', intentions_exprimees = 900, intentions = [(''Emmanuel Macron'', 24)]\<rparr>,
        \<lparr>hypothese = ''H2'', intentions_exprimees = 950, intentions = [(''Emmanuel Macron'', 25)]\<rparr>])"
  by (simp add: select_hypothesis_def has_taubira_def)

section \<open>Verification: the multinomial encoder\<close>







section \<open>Verification: the shares of a harmonized row\<close>

lemma sum_skipna_other:
  "sum_skipna (f(other := Some (100 - sum_skipna f (butlast political_families)))) political_families = 100"
  by (simp add: sum_skipna_def political_families_def)

lemma harmonize_sum:
  "r \<in> set (harmonize polls) \<Longrightarrow> sum_skipna (shares r) political_families = 100"
  by (auto simp: harmonize_def compute_other_def sum_skipna_other)

lemma assert_allclose_harmonize:
  "assert_allclose (map (\<lambda>r. sum_skipna (shares r) political_families) (harmonize polls)) 100 = Inr ()"
  by (simp add: assert_allclose_def list_all_iff harmonize_sum rtol_def)


text \<open>
  The records the loop of \<open>results_as_multinomial\<close> is to collect: one for every
  listed pair whose year has official results, in the order of the pairs.
\<close>

definition available_results :: "raw_json \<Rightarrow> (int \<times> int) list \<Rightarrow> (int \<times> rat) list" where
  "available_results raw_json pairs =
     List.map_filter
       (\<lambda>p. case exprimes_of raw_json (fst p) of Inl e \<Rightarrow> None | Inr v \<Rightarrow> Some (snd p, v)) pairs"

lemma exprimes_of_KeyError: "exprimes_of raw_json year = Inl e \<Longrightarrow> e = KeyError"
  by (auto simp: exprimes_of_def split: option.splits)

lemma collect_jsons_available:
  "collect_jsons raw_json pairs = Inr (available_results raw_json pairs)"
  by (induction pairs)
    (auto simp: available_results_def List.map_filter_simps split: sum.splits
      dest: exprimes_of_KeyError)

lemma available_results_empty_iff:
  "available_results raw_json pairs = [] \<longleftrightarrow>
     (\<forall>p \<in> set pairs. isl (exprimes_of raw_json (fst p)))"
  by (induction pairs) (auto simp: available_results_def List.map_filter_simps split: sum.splits)

lemma format_polls_Inr:
  assumes "format_polls raw_json polls = Inr (results_raw, results_mult', polls')"
  shows "results_raw = filter (\<lambda>r. sondage r = ''result'') (harmonize polls)"
    and "polls' = map cast_row (filter (\<lambda>r. sondage r \<noteq> ''result'') (harmonize polls))"
    and "\<exists>js. results_mult' = map (\<lambda>r. cast_row (join_exprimes js r)) results_raw"
  using assms
  by (auto simp: format_polls_def results_as_multinomial_def cast_as_multinomial_def Let_def
      collect_jsons_available split: sum.splits if_splits)


lemma year_start_2017: "year_start (year_of 17279) = 17167"
  by code_simp


lemma format_polls_success:
  assumes "available_results raw_json
             (election_years (filter (\<lambda>r. sondage r = ''result'') (harmonize polls))) \<noteq> []"
  shows "format_polls raw_json polls =
           Inr (filter (\<lambda>r. sondage r = ''result'') (harmonize polls),
                cast_as_multinomial
                  (map (join_exprimes
                          (available_results raw_json
                             (election_years (filter (\<lambda>r. sondage r = ''result'') (harmonize polls)))))
                     (filter (\<lambda>r. sondage r = ''result'') (harmonize polls))),
                cast_as_multinomial (filter (\<lambda>r. sondage r \<noteq> ''result'') (harmonize polls)))"
  using assms
  by (simp add: format_polls_def assert_allclose_harmonize results_as_multinomial_def Let_def
      collect_jsons_available)

lemma harmonize_sample:
  "harmonize [result_2017_day, poll_2017_a] =
     [compute_other (with_countdown result_2017_day 0), compute_other (with_countdown poll_2017_a 9)]"
  by (simp add: harmonize_def concat_dfs_def election_frame_def unique_def dates_to_idx_def
      poll_2017_a_def result_2017_day_def result_2017_def year_start_2017)

lemma sample_jsons:
  "available_results raw_json_2017
     (election_years (filter (\<lambda>r. sondage r = ''result'') (harmonize [result_2017_day, poll_2017_a]))) \<noteq> []"
  by code_simp


section \<open>Verification: the countdown\<close>

lemma election_frame_row:
  "r \<in> set (election_frame polls d) \<Longrightarrow>
     countdown r = dateelection r - date r \<and> year_start (year_of (dateelection r)) \<le> date r"
  by (auto simp: election_frame_def dates_to_idx_def with_countdown_def zip_map2 zip_same_conv_map
      Let_def)

lemma concat_dfs_row:
  "r \<in> set (concat_dfs polls) \<Longrightarrow>
     countdown r = dateelection r - date r \<and> year_start (year_of (dateelection r)) \<le> date r"
  by (auto simp: concat_dfs_def dest: election_frame_row)

lemma harmonize_row:
  "r \<in> set (harmonize polls) \<Longrightarrow>
     countdown r = dateelection r - date r \<and> year_start (year_of (dateelection r)) \<le> date r"
  by (auto simp: harmonize_def compute_other_def dest: concat_dfs_row)

lemma cast_row_fields:
  "countdown (cast_row r) = countdown r" "dateelection (cast_row r) = dateelection r"
  "date (cast_row r) = date r" "sondage (cast_row r) = sondage r"
  by (simp_all add: cast_row_def)

lemma join_exprimes_fields:
  "countdown (join_exprimes js r) = countdown r" "dateelection (join_exprimes js r) = dateelection r"
  "date (join_exprimes js r) = date r" "sondage (join_exprimes js r) = sondage r"
  by (simp_all add: join_exprimes_def)

text \<open>
  Claim C5, as the code has it: in the three tables \<open>_format_polls\<close> returns, the
  countdown of a row is the number of days from its date to its election's date, and the
  row is dated on or after January 1st of the election year (nothing drops a row dated
  after the election). So the countdown of a result row is 0 exactly when the row is dated
  on the election day, and the countdown of a poll is non-negative exactly when the poll
  is dated no later than the election.
\<close>

theorem format_polls_countdown:
  assumes "format_polls raw_json polls = Inr (results_raw, results_mult', polls')"
  shows "(\<forall>r \<in> set results_raw.
            countdown r = dateelection r - date r \<and>
            year_start (year_of (dateelection r)) \<le> date r \<and>
            (countdown r = 0 \<longleftrightarrow> date r = dateelection r)) \<and>
         (\<forall>r \<in> set results_mult'.
            countdown r = dateelection r - date r \<and>
            year_start (year_of (dateelection r)) \<le> date r \<and>
            (countdown r = 0 \<longleftrightarrow> date r = dateelection r)) \<and>
         (\<forall>r \<in> set polls'.
            countdown r = dateelection r - date r \<and>
            year_start (year_of (dateelection r)) \<le> date r \<and>
            (0 \<le> countdown r \<longleftrightarrow> date r \<le> dateelection r))"
proof (intro conjI ballI)
  fix r assume "r \<in> set results_raw"
  then have "r \<in> set (harmonize polls)"
    by (simp add: format_polls_Inr(1) [OF assms])
  from harmonize_row [OF this]
  show "countdown r = dateelection r - date r"
    and "year_start (year_of (dateelection r)) \<le> date r"
    and "countdown r = 0 \<longleftrightarrow> date r = dateelection r"
    by auto
next
  fix r assume r: "r \<in> set results_mult'"
  from format_polls_Inr(3) [OF assms] obtain js
    where "results_mult' = map (\<lambda>r. cast_row (join_exprimes js r)) results_raw"
    by blast
  with r obtain r0 where r0: "r0 \<in> set results_raw" "r = cast_row (join_exprimes js r0)"
    by auto
  from r0(1) have "r0 \<in> set (harmonize polls)"
    by (simp add: format_polls_Inr(1) [OF assms])
  from harmonize_row [OF this]
  show "countdown r = dateelection r - date r"
    and "year_start (year_of (dateelection r)) \<le> date r"
    and "countdown r = 0 \<longleftrightarrow> date r = dateelection r"
    by (auto simp: r0(2) cast_row_fields join_exprimes_fields)
next
  fix r assume r: "r \<in> set polls'"
  then obtain r0 where r0: "r0 \<in> set (harmonize polls)" "r = cast_row r0"
    by (auto simp: format_polls_Inr(2) [OF assms])
  from harmonize_row [OF r0(1)]
  show "countdown r = dateelection r - date r"
    and "year_start (year_of (dateelection r)) \<le> date r"
    and "0 \<le> countdown r \<longleftrightarrow> date r \<le> dateelection r"
    by (auto simp: r0(2) cast_row_fields)
qed


theorem format_polls_countdown_witness:
  "format_polls raw_json_2017 [result_2017_day, poll_2017_a] =
     Inr (filter (\<lambda>r. sondage r = ''result'') (harmonize [result_2017_day, poll_2017_a]),
          cast_as_multinomial
            (map (join_exprimes
                    (available_results raw_json_2017
                       (election_years (filter (\<lambda>r. sondage r = ''result'')
                          (harmonize [result_2017_day, poll_2017_a])))))
               (filter (\<lambda>r. sondage r = ''result'') (harmonize [result_2017_day, poll_2017_a]))),
          cast_as_multinomial (filter (\<lambda>r. sondage r \<noteq> ''result'')
            (harmonize [result_2017_day, poll_2017_a]))) \<and>
   map countdown (filter (\<lambda>r. sondage r = ''result'') (harmonize [result_2017_day, poll_2017_a])) = [0] \<and>
   map countdown (cast_as_multinomial (filter (\<lambda>r. sondage r \<noteq> ''result'')
     (harmonize [result_2017_day, poll_2017_a]))) = [9]"
proof -
  note ok = format_polls_success [OF sample_jsons]
  have s: "sondage (compute_other (with_countdown result_2017_day 0)) = ''result''"
    "sondage (compute_other (with_countdown poll_2017_a 9)) = ''Ifop''"
    by (simp_all add: compute_other_def with_countdown_def result_2017_day_def result_2017_def
        poll_2017_a_def)
  have r: "filter (\<lambda>r. sondage r = ''result'') (harmonize [result_2017_day, poll_2017_a]) =
             [compute_other (with_countdown result_2017_day 0)]"
    by (simp add: harmonize_sample s)
  have p: "filter (\<lambda>r. sondage r \<noteq> ''result'') (harmonize [result_2017_day, poll_2017_a]) =
             [compute_other (with_countdown poll_2017_a 9)]"
    by (simp add: harmonize_sample s)
  have c: "countdown (compute_other (with_countdown result_2017_day 0)) = 0"
    "countdown (compute_other (with_countdown poll_2017_a 9)) = 9"
    by (simp_all add: compute_other_def with_countdown_def)
  from format_polls_countdown [OF ok] show ?thesis
    using ok by (simp add: r p c cast_as_multinomial_def cast_row_fields)
qed

text \<open>
  The claim as the specification words it fails on a table whose result row is dated on
  the eve of the vote and which holds a poll dated two days after the vote: both rows are
  kept, with the countdowns 1 and -2.
\<close>

theorem format_polls_countdown_counterexample:
  "map_sum id (\<lambda>(results_raw, results_mult', polls).
       (map sondage results_raw, map countdown results_raw, map countdown results_mult',
        map sondage polls, map countdown polls))
     (format_polls raw_json_2017 [result_2017, poll_2017_a, poll_2017_late])
   = Inr ([''result''], [1], [1], [''Ifop'', ''Ifop''], [9, - 2])"
  by code_simp

section \<open>Verification: the results table\<close>

lemma share_count_None: "share_count s None = 0"
  by (cases s) (simp_all add: share_count_def)

lemma available_results_mem:
  "(y, d) \<in> set pairs \<Longrightarrow> exprimes_of raw_json y = Inr v \<Longrightarrow>
     (d, v) \<in> set (available_results raw_json pairs)"
  by (induction pairs)
    (auto simp: available_results_def List.map_filter_simps split: sum.splits)

text \<open>
  Claim C8, as the code has it: the loop of \<open>results_as_multinomial\<close> never raises: it
  skips a listed election whose year has no official results and collects the record of
  every other listed election, in order. As long as one listed election year has
  results, the function returns the encoded table, one row per result row, the row of an
  election without a joined record having a zero trial count and zero counts.
\<close>

theorem results_as_multinomial_skips_missing:
  assumes "\<exists>p \<in> set (election_years results_raw). \<not> isl (exprimes_of raw_json (fst p))"
  shows "collect_jsons raw_json (election_years results_raw) =
           Inr (available_results raw_json (election_years results_raw)) \<and>
         (\<forall>y d v. (y, d) \<in> set (election_years results_raw) \<and> exprimes_of raw_json y = Inr v \<longrightarrow>
            (d, v) \<in> set (available_results raw_json (election_years results_raw))) \<and>
         (\<exists>results_mult'.
            results_as_multinomial raw_json results_raw = Inr results_mult' \<and>
            map dateelection results_mult' = map dateelection results_raw \<and>
            (\<forall>i < length results_raw.
               map_of (available_results raw_json (election_years results_raw))
                 (dateelection (results_raw ! i)) = None \<longrightarrow>
               samplesize (results_mult' ! i) = 0 \<and> (\<forall>p. shares (results_mult' ! i) p = 0)))"
proof (intro conjI)
  show "collect_jsons raw_json (election_years results_raw) =
          Inr (available_results raw_json (election_years results_raw))"
    by (rule collect_jsons_available)
next
  show "\<forall>y d v. (y, d) \<in> set (election_years results_raw) \<and> exprimes_of raw_json y = Inr v \<longrightarrow>
          (d, v) \<in> set (available_results raw_json (election_years results_raw))"
    by (blast intro: available_results_mem)
next
  let ?js = "available_results raw_json (election_years results_raw)"
  let ?rm = "cast_as_multinomial (map (join_exprimes ?js) results_raw)"
  have ne: "?js \<noteq> []"
    using assms by (simp add: available_results_empty_iff)
  then have 1: "results_as_multinomial raw_json results_raw = Inr ?rm"
    by (simp add: results_as_multinomial_def collect_jsons_available)
  have 2: "map dateelection ?rm = map dateelection results_raw"
    by (simp add: cast_as_multinomial_def cast_row_fields join_exprimes_fields comp_def)
  have 3: "\<forall>i < length results_raw.
             map_of ?js (dateelection (results_raw ! i)) = None \<longrightarrow>
             samplesize (?rm ! i) = 0 \<and> (\<forall>p. shares (?rm ! i) p = 0)"
    by (simp add: cast_as_multinomial_def cast_row_def join_exprimes_def share_count_None sum1_def)
  from 1 2 3 show "\<exists>results_mult'.
            results_as_multinomial raw_json results_raw = Inr results_mult' \<and>
            map dateelection results_mult' = map dateelection results_raw \<and>
            (\<forall>i < length results_raw.
               map_of ?js (dateelection (results_raw ! i)) = None \<longrightarrow>
               samplesize (results_mult' ! i) = 0 \<and> (\<forall>p. shares (results_mult' ! i) p = 0))"
    by blast
qed

theorem results_as_multinomial_skips_missing_witness:
  "(\<exists>p \<in> set (election_years sample_results_raw). \<not> isl (exprimes_of raw_json_2017 (fst p))) \<and>
   election_years sample_results_raw = [(2017, 17279), (2022, 19092)] \<and>
   exprimes_of raw_json_2017 2017 = Inr 36054394 \<and>
   exprimes_of raw_json_2017 2022 = Inl KeyError \<and>
   collect_jsons raw_json_2017 (election_years sample_results_raw) = Inr [(17279, 36054394)] \<and>
   (\<exists>results_mult'.
      results_as_multinomial raw_json_2017 sample_results_raw = Inr results_mult' \<and>
      map dateelection results_mult' = [17279, 19092] \<and>
      samplesize (results_mult' ! 1) = 0 \<and> (\<forall>p. shares (results_mult' ! 1) p = 0))"
proof -
  have h: "\<exists>p \<in> set (election_years sample_results_raw). \<not> isl (exprimes_of raw_json_2017 (fst p))"
    by code_simp
  have ey: "election_years sample_results_raw = [(2017, 17279), (2022, 19092)]"
    by code_simp
  have ex: "exprimes_of raw_json_2017 2017 = Inr 36054394"
    "exprimes_of raw_json_2017 2022 = Inl KeyError"
    by code_simp+
  have av: "available_results raw_json_2017 (election_years sample_results_raw) = [(17279, 36054394)]"
    by code_simp
  have de: "map dateelection sample_results_raw = [17279, 19092]"
    by code_simp
  have d1: "dateelection (sample_results_raw ! Suc 0) = 19092"
    by code_simp
  have len: "length sample_results_raw = 2"
    by code_simp
  from results_as_multinomial_skips_missing [OF h]
  obtain rm where cj: "collect_jsons raw_json_2017 (election_years sample_results_raw) =
      Inr (available_results raw_json_2017 (election_years sample_results_raw))"
    and rm: "results_as_multinomial raw_json_2017 sample_results_raw = Inr rm"
    "map dateelection rm = map dateelection sample_results_raw"
    "\<forall>i < length sample_results_raw.
       map_of (available_results raw_json_2017 (election_years sample_results_raw))
         (dateelection (sample_results_raw ! i)) = None \<longrightarrow>
       samplesize (rm ! i) = 0 \<and> (\<forall>p. shares (rm ! i) p = 0)"
    by blast
  have m: "map_of (available_results raw_json_2017 (election_years sample_results_raw))
              (dateelection (sample_results_raw ! 1)) = None"
    by (simp add: av d1)
  have "(1::nat) < length sample_results_raw"
    by (simp add: len)
  with rm(3) m have z: "samplesize (rm ! 1) = 0 \<and> (\<forall>p. shares (rm ! 1) p = 0)"
    by blast
  have cj': "collect_jsons raw_json_2017 (election_years sample_results_raw) = Inr [(17279, 36054394)]"
    by (simp only: cj av)
  from rm(1,2) z de have "\<exists>results_mult'.
      results_as_multinomial raw_json_2017 sample_results_raw = Inr results_mult' \<and>
      map dateelection results_mult' = [17279, 19092] \<and>
      samplesize (results_mult' ! 1) = 0 \<and> (\<forall>p. shares (results_mult' ! 1) p = 0)"
    by auto
  with h ey ex cj' show ?thesis
    by blast
qed

text \<open>
  The claim as the specification words it (the skipped year never aborts the processing)
  fails when no listed election has results: with the 2022 row as the only result row,
  the loop collects nothing and \<open>pd.concat\<close> raises.
\<close>

theorem results_as_multinomial_abort_counterexample:
  "exprimes_of raw_json_2017 (year_of 19092) = Inl KeyError \<and>
   collect_jsons raw_json_2017 (election_years [compute_other (with_countdown result_2022 0)]) = Inr [] \<and>
   map_sum id (map samplesize)
     (results_as_multinomial raw_json_2017 [compute_other (with_countdown result_2022 0)]) = Inl ValueError \<and>
   map_sum id (\<lambda>(results_raw, results_mult', polls). map samplesize results_mult')
     (format_polls raw_json_2017 [poll_2017_a, result_2022]) = Inl ValueError"
  by code_simp

section \<open>Verification: the dates of the forecast frame\<close>

lemma sequence_map_Inr:
  "(\<And>x. x \<in> set xs \<Longrightarrow> f x = Inr (g x)) \<Longrightarrow> sequence (map f xs) = Inr (map g xs)"
  by (induction xs) auto

lemma sequence_map_Inl:
  "x \<in> set xs \<Longrightarrow> (\<And>x. x \<in> set xs \<Longrightarrow> f x = Inl e) \<Longrightarrow> sequence (map f xs) = Inl e"
  by (induction xs) auto

lemma new_dates_of_cases:
  "new_dates_of idata =
     (if posterior_elections idata = [] then Inl ValueError
      else case posterior_countdown idata of
             [] \<Rightarrow> Inl ValueError
           | c # cs \<Rightarrow>
               if fold max cs c + 1 < 0 then Inl ValueError
               else Inr (concat (map (\<lambda>d. [d - fold max cs c..d]) (posterior_elections idata))))"
proof (cases "posterior_elections idata = []")
  case True
  then show ?thesis by (simp add: new_dates_of_def pd_concat_def)
next
  case ne: False
  then obtain d0 where d0: "d0 \<in> set (posterior_elections idata)"
    by (cases "posterior_elections idata") auto
  show ?thesis
  proof (cases "posterior_countdown idata")
    case Nil
    have "sequence (map (\<lambda>d. case posterior_countdown idata of
                                  [] \<Rightarrow> Inl ValueError
                                | c # cs \<Rightarrow> date_range (fold max cs c + 1) d)
                      (posterior_elections idata)) = Inl ValueError"
      by (rule sequence_map_Inl [OF d0]) (simp add: Nil)
    then show ?thesis using ne Nil by (simp add: new_dates_of_def)
  next
    case (Cons c cs)
    show ?thesis
    proof (cases "fold max cs c + 1 < 0")
      case True
      have "sequence (map (\<lambda>d. case posterior_countdown idata of
                                  [] \<Rightarrow> Inl ValueError
                                | c # cs \<Rightarrow> date_range (fold max cs c + 1) d)
                      (posterior_elections idata)) = Inl ValueError"
        by (rule sequence_map_Inl [OF d0]) (simp add: Cons date_range_def True)
      then show ?thesis using ne Cons True by (simp add: new_dates_of_def)
    next
      case False
      have "sequence (map (\<lambda>d. case posterior_countdown idata of
                                  [] \<Rightarrow> Inl ValueError
                                | c # cs \<Rightarrow> date_range (fold max cs c + 1) d)
                      (posterior_elections idata))
            = Inr (map (\<lambda>d. [d - fold max cs c..d]) (posterior_elections idata))"
        by (rule sequence_map_Inr) (use False in \<open>simp add: Cons date_range_def\<close>)
      then show ?thesis using ne Cons False by (simp add: new_dates_of_def pd_concat_def)
    qed
  qed
qed

lemma length_concat_blocks:
  "(\<And>x. x \<in> set xs \<Longrightarrow> length (f x) = n) \<Longrightarrow> length (concat (map f xs)) = length xs * n"
  by (induction xs) auto

lemma nth_concat_blocks:
  "(\<And>x. x \<in> set xs \<Longrightarrow> length (f x) = n) \<Longrightarrow> j < length xs \<Longrightarrow> k < n \<Longrightarrow>
     concat (map f xs) ! (j * n + k) = f (xs ! j) ! k"
proof (induction xs arbitrary: j)
  case Nil
  then show ?case by simp
next
  case (Cons x xs)
  show ?case
  proof (cases j)
    case 0
    with Cons.prems show ?thesis by (simp add: nth_append)
  next
    case (Suc j')
    have "concat (map f xs) ! (j' * n + k) = f (xs ! j') ! k"
      using Cons.prems Suc by (intro Cons.IH) auto
    with Cons.prems Suc show ?thesis by (simp add: nth_append add.assoc)
  qed
qed

lemma fold_max_upto:
  assumes "0 \<le> (m::int)" "[0..m] = c # cs"
  shows "fold max cs c = m"
proof -
  have "fold max cs c = Max (set (c # cs))"
    by (rule Max.set_eq_fold [symmetric])
  also have "\<dots> = Max {0..m}"
    using assms(2) [symmetric] by simp
  also have "\<dots> = m"
    using assms(1) by (intro Max_eqI) auto
  finally show ?thesis .
qed

lemma map_date_oos_rows:
  "length a = n \<Longrightarrow> length b = n \<Longrightarrow> length c = n \<Longrightarrow> length d = n \<Longrightarrow> length e = n \<Longrightarrow>
     map date (map oos_row (zip a (zip b (zip c (zip d e))))) = e \<and>
     map countdown (map oos_row (zip a (zip b (zip c (zip d e))))) = a \<and>
     map dateelection (map oos_row (zip a (zip b (zip c (zip d e))))) = b \<and>
     map sondage (map oos_row (zip a (zip b (zip c (zip d e))))) = c \<and>
     map samplesize (map oos_row (zip a (zip b (zip c (zip d e))))) = d"
  by (auto simp: oos_row_def list_eq_iff_nth_eq)


lemma length_concat_replicate:
  "length (concat (replicate n xs)) = n * length xs"
  by (induction n) auto

lemma length_concat_map_replicate:
  "length (concat (map (replicate k) xs)) = length xs * k"
  by (induction xs) auto

lemma choice_Inr:
  "choice a n draws = Inr xs \<Longrightarrow> length xs = n \<and> (0 < n \<longrightarrow> a \<noteq> []) \<and> set xs \<subseteq> set a"
  by (auto simp: choice_def split: if_splits)

lemma choice_nonempty:
  "a \<noteq> [] \<Longrightarrow> choice a n draws = Inr (map (\<lambda>i. a ! (draws i mod length a)) [0..<n])"
  by (simp add: choice_def)

lemma generate_oos_data_Inr:
  assumes "generate_oos_data self idata rng = Inr (new_dates, oos_data)"
  shows "\<exists>c cs. posterior_countdown idata = c # cs \<and> posterior_elections idata \<noteq> [] \<and>
           0 \<le> fold max cs c + 1 \<and>
           new_dates = concat (map (\<lambda>d. [d - fold max cs c..d]) (posterior_elections idata)) \<and>
           length new_dates = length (posterior_elections idata) * length (posterior_countdown idata) \<and>
           map date oos_data = new_dates \<and>
           map countdown oos_data =
             concat (replicate (length (posterior_elections idata)) (rev (posterior_countdown idata))) \<and>
           map dateelection oos_data =
             concat (map (replicate (length (posterior_countdown idata))) (unique_elections self)) \<and>
           set (map sondage oos_data) \<subseteq> set (unique_pollsters self)"
proof -
  let ?N = "length (concat (replicate (length (posterior_elections idata)) (rev (posterior_countdown idata))))"
  have N: "?N = length (posterior_elections idata) * length (posterior_countdown idata)"
    by (simp add: length_concat_replicate)
  from assms obtain nd where nd: "new_dates_of idata = Inr nd"
    by (auto simp: generate_oos_data_def Let_def split: sum.splits)
  from assms nd obtain sondages where so: "choice (unique_pollsters self) ?N rng = Inr sondages"
    by (auto simp: generate_oos_data_def Let_def split: sum.splits)
  from assms nd so obtain samplesizes
    where sa: "choice (map samplesize (results_oos self)) ?N (\<lambda>i. rng (?N + i)) = Inr samplesizes"
    by (auto simp: generate_oos_data_def Let_def split: sum.splits)
  let ?de = "concat (map (replicate (length (posterior_countdown idata))) (unique_elections self))"
  let ?ed = "concat (replicate (length (posterior_elections idata)) (rev (posterior_countdown idata)))"
  from assms nd so sa have len: "length ?de = ?N" "length nd = ?N"
    and res: "new_dates = nd"
      "oos_data = map oos_row (zip ?ed (zip ?de (zip sondages (zip samplesizes nd))))"
    by (auto simp: generate_oos_data_def Let_def split: if_splits)
  from choice_Inr [OF so] choice_Inr [OF sa]
  have l2: "length sondages = ?N" "length samplesizes = ?N" "set sondages \<subseteq> set (unique_pollsters self)"
    by auto
  have cols: "map date oos_data = nd" "map countdown oos_data = ?ed" "map dateelection oos_data = ?de"
    "map sondage oos_data = sondages"
    using map_date_oos_rows [OF refl len(1) l2(1) l2(2) len(2)] by (simp_all add: res(2))
  from nd obtain c cs where c: "posterior_countdown idata = c # cs" "posterior_elections idata \<noteq> []"
    "0 \<le> fold max cs c + 1"
    "nd = concat (map (\<lambda>d. [d - fold max cs c..d]) (posterior_elections idata))"
    by (auto simp: new_dates_of_cases split: if_splits list.splits)
  show ?thesis
    using c cols l2(3) len(2) N res(1) by (intro exI [of _ c] exI [of _ cs]) simp
qed

lemma generate_oos_data_success:
  assumes "posterior_countdown idata = [0..m]" and "0 \<le> m"
    and "posterior_elections idata \<noteq> []"
    and "length (unique_elections self) = length (posterior_elections idata)"
    and "unique_pollsters self \<noteq> []" and "results_oos self \<noteq> []"
  shows "\<exists>oos_data.
           generate_oos_data self idata rng =
             Inr (concat (map (\<lambda>d. [d - m..d]) (posterior_elections idata)), oos_data) \<and>
           map sondage oos_data =
             map (\<lambda>i. unique_pollsters self ! (rng i mod length (unique_pollsters self)))
               [0..<length (posterior_elections idata) * (nat m + 1)]"
proof -
  let ?es = "posterior_elections idata"
  let ?nd = "concat (map (\<lambda>d. [d - m..d]) ?es)"
  obtain c cs where cc: "[0..m] = c # cs"
    using assms(2) by (cases "[0..m]") (auto simp: upto_rec1)
  have fm: "fold max cs c = m"
    using assms(2) cc by (rule fold_max_upto)
  have nd: "new_dates_of idata = Inr ?nd"
    using assms(1,2,3) cc fm by (simp add: new_dates_of_cases)
  have lc: "length (posterior_countdown idata) = nat m + 1"
    using assms(1,2) by simp
  have blocks: "\<And>d. d \<in> set ?es \<Longrightarrow> length [d - m..d] = nat m + 1"
    using assms(2) by simp
  have lnd: "length ?nd = length ?es * (nat m + 1)"
    using blocks by (rule length_concat_blocks)
  let ?N = "length (concat (replicate (length ?es) (rev (posterior_countdown idata))))"
  have N: "?N = length ?es * (nat m + 1)"
    by (simp only: length_concat_replicate length_rev lc)
  have lde: "length (concat (map (replicate (length (posterior_countdown idata))) (unique_elections self))) = ?N"
    by (simp only: N length_concat_map_replicate lc assms(4))
  have so: "choice (unique_pollsters self) ?N rng =
              Inr (map (\<lambda>i. unique_pollsters self ! (rng i mod length (unique_pollsters self))) [0..<?N])"
    using assms(5) by (rule choice_nonempty)
  have sa: "choice (map samplesize (results_oos self)) ?N (\<lambda>i. rng (?N + i)) =
              Inr (map (\<lambda>i. map samplesize (results_oos self) !
                     (rng (?N + i) mod length (map samplesize (results_oos self)))) [0..<?N])"
    using assms(6) by (intro choice_nonempty) simp
  have lnd': "length ?nd = ?N"
    by (simp only: lnd N)
  define sondages where
    "sondages = map (\<lambda>i. unique_pollsters self ! (rng i mod length (unique_pollsters self))) [0..<?N]"
  define samplesizes where
    "samplesizes = map (\<lambda>i. map samplesize (results_oos self) !
                     (rng (?N + i) mod length (map samplesize (results_oos self)))) [0..<?N]"
  define oos where "oos = map oos_row
      (zip (concat (replicate (length ?es) (rev (posterior_countdown idata))))
        (zip (concat (map (replicate (length (posterior_countdown idata))) (unique_elections self)))
          (zip sondages (zip samplesizes ?nd))))"
  have gen: "generate_oos_data self idata rng = Inr (?nd, oos)"
    by (simp only: generate_oos_data_def Let_def nd sum.case so sa lde lnd' simp_thms if_False
        oos_def sondages_def samplesizes_def)
  have ls: "length sondages = ?N" "length samplesizes = ?N"
    by (simp_all only: sondages_def samplesizes_def length_map length_upt diff_zero)
  have "map sondage oos = sondages"
    using map_date_oos_rows [OF refl lde ls lnd'] by (simp only: oos_def)
  then have "map sondage oos =
      map (\<lambda>i. unique_pollsters self ! (rng i mod length (unique_pollsters self)))
        [0..<length ?es * (nat m + 1)]"
    by (simp only: sondages_def N)
  with gen show ?thesis
    by blast
qed

text \<open>
  Claim C7: when the posterior carries the countdown range \<open>0..m\<close> of the training
  coordinates, \<open>_generate_oos_data\<close> returns a frame whose date column holds, for every
  election of the coordinates, exactly \<open>m + 1\<close> dates, one day apart, the last one
  being the election's date.
\<close>

theorem generate_oos_data_dates:
  assumes "posterior_countdown idata = [0..m]" and "0 \<le> m"
    and "posterior_elections idata \<noteq> []"
    and "length (unique_elections self) = length (posterior_elections idata)"
    and "unique_pollsters self \<noteq> []" and "results_oos self \<noteq> []"
  shows "\<exists>new_dates oos_data.
           generate_oos_data self idata rng = Inr (new_dates, oos_data) \<and>
           map date oos_data = new_dates \<and>
           length new_dates = length (posterior_elections idata) * (nat m + 1) \<and>
           (\<forall>j < length (posterior_elections idata). \<forall>k \<le> nat m.
              new_dates ! (j * (nat m + 1) + k) = posterior_elections idata ! j - m + int k)"
proof -
  let ?es = "posterior_elections idata"
  let ?nd = "concat (map (\<lambda>d. [d - m..d]) ?es)"
  from generate_oos_data_success [OF assms, of rng]
  obtain oos where gen: "generate_oos_data self idata rng = Inr (?nd, oos)"
    by blast
  have dates: "map date oos = ?nd"
    using generate_oos_data_Inr [OF gen] by blast
  have blocks: "\<And>d. d \<in> set ?es \<Longrightarrow> length [d - m..d] = nat m + 1"
    using assms(2) by simp
  have lnd: "length ?nd = length ?es * (nat m + 1)"
    using blocks by (rule length_concat_blocks)
  have nth: "\<forall>j < length ?es. \<forall>k \<le> nat m. ?nd ! (j * (nat m + 1) + k) = ?es ! j - m + int k"
  proof (intro allI impI)
    fix j k assume j: "j < length ?es" and k: "k \<le> nat m"
    have "?nd ! (j * (nat m + 1) + k) = [?es ! j - m..?es ! j] ! k"
      using blocks j k by (intro nth_concat_blocks) auto
    also have "\<dots> = ?es ! j - m + int k"
      using k assms(2) by (intro nth_upto) auto
    finally show "?nd ! (j * (nat m + 1) + k) = ?es ! j - m + int k" .
  qed
  from gen dates lnd nth show ?thesis
    by blast
qed

text \<open>A countdown range \<open>0..59\<close> and two elections: 60 dates for each.\<close>

theorem generate_oos_data_dates_witness:
  "posterior_countdown \<lparr>posterior_countdown = [0..59], posterior_elections = [17279, 19092]\<rparr> = [0..59] \<and>
   (0::int) \<le> 59 \<and>
   posterior_elections \<lparr>posterior_countdown = [0..59], posterior_elections = [17279, 19092]\<rparr> \<noteq> [] \<and>
   length (unique_elections sample_self) =
     length (posterior_elections \<lparr>posterior_countdown = [0..59], posterior_elections = [17279, 19092]\<rparr>) \<and>
   unique_pollsters sample_self \<noteq> [] \<and> results_oos sample_self \<noteq> [] \<and>
   (\<exists>new_dates oos_data.
      generate_oos_data sample_self
        \<lparr>posterior_countdown = [0..59], posterior_elections = [17279, 19092]\<rparr> (\<lambda>i. i)
        = Inr (new_dates, oos_data) \<and>
      map date oos_data = new_dates \<and> length new_dates = 2 * 60 \<and>
      new_dates ! 0 = 17220 \<and> new_dates ! 1 = 17221 \<and> new_dates ! 59 = 17279 \<and>
      new_dates ! 60 = 19033 \<and> new_dates ! 119 = 19092)"
proof -
  let ?idata = "\<lparr>posterior_countdown = [0..59], posterior_elections = [17279, 19092]\<rparr>"
  have h: "posterior_countdown ?idata = [0..59]" "(0::int) \<le> 59" "posterior_elections ?idata \<noteq> []"
    "length (unique_elections sample_self) = length (posterior_elections ?idata)"
    "unique_pollsters sample_self \<noteq> []" "results_oos sample_self \<noteq> []"
    by (simp_all add: sample_self_def sample_results_oos_def)
  from generate_oos_data_dates [OF h, of "\<lambda>i. i"]
  obtain new_dates oos_data where g:
    "generate_oos_data sample_self ?idata (\<lambda>i. i) = Inr (new_dates, oos_data)"
    "map date oos_data = new_dates"
    "length new_dates = length (posterior_elections ?idata) * (nat 59 + 1)"
    "\<forall>j < length (posterior_elections ?idata). \<forall>k \<le> nat 59.
       new_dates ! (j * (nat 59 + 1) + k) = posterior_elections ?idata ! j - 59 + int k"
    by blast
  have nth: "\<And>j k. j < 2 \<Longrightarrow> k \<le> 59 \<Longrightarrow>
      new_dates ! (j * 60 + k) = [17279, 19092] ! j - 59 + int k"
    using g(4) by simp
  have n: "new_dates ! 0 = 17220" "new_dates ! 1 = 17221" "new_dates ! 59 = 17279"
    "new_dates ! 60 = 19033" "new_dates ! 119 = 19092"
    using nth [of 0 0] nth [of 0 1] nth [of 0 59] nth [of 1 0] nth [of 1 59] by simp_all
  from g(1,2,3) n h show ?thesis
    by (intro conjI exI [of _ new_dates] exI [of _ oos_data]) simp_all
qed

section \<open>Verification: the join with the predictor\<close>

lemma unemployment_join:
  "unemployment (join_unemployment self r) = joined_unemployment self (date r)"
  by (simp add: join_unemployment_def joined_unemployment_def)

text \<open>
  Claim C9: \<open>_join_with_continuous_predictors\<close> raises exactly when a row of the frame
  gets no predictor value from the join; when every row gets one, it returns the joined
  frame with the predictor of every row standardized by the statistics of the
  training-time predictor frame, that is \<open>(u - mu) / sigma\<close> for its mean \<open>mu\<close> and its
  standard deviation \<open>sigma\<close>, when these are numbers and \<open>sigma\<close> is not 0.
\<close>

theorem join_with_continuous_predictors_checks:
  "(join_with_continuous_predictors self oos_data = Inl AssertionError \<longleftrightarrow>
      (\<exists>r \<in> set oos_data. joined_unemployment self (date r) = None)) \<and>
   ((\<forall>r \<in> set oos_data. joined_unemployment self (date r) \<noteq> None) \<longrightarrow>
      join_with_continuous_predictors self oos_data =
        Inr (map (\<lambda>r. (join_unemployment self r)
               \<lparr>unemployment := stdz_unemployment self (joined_unemployment self (date r))\<rparr>)
             oos_data)) \<and>
   (\<forall>mu sigma u.
      series_mean (map snd (continuous_predictors self)) = Some mu \<and>
      series_std (map snd (continuous_predictors self)) = Some sigma \<and> sigma \<noteq> 0 \<longrightarrow>
      stdz_unemployment self (Some u) = Some ((u - mu) / sigma))"
proof (intro conjI allI impI)
  show "join_with_continuous_predictors self oos_data = Inl AssertionError \<longleftrightarrow>
      (\<exists>r \<in> set oos_data. joined_unemployment self (date r) = None)"
    by (auto simp: join_with_continuous_predictors_def Let_def list_ex_iff unemployment_join)
next
  assume "\<forall>r \<in> set oos_data. joined_unemployment self (date r) \<noteq> None"
  then show "join_with_continuous_predictors self oos_data =
        Inr (map (\<lambda>r. (join_unemployment self r)
               \<lparr>unemployment := stdz_unemployment self (joined_unemployment self (date r))\<rparr>)
             oos_data)"
    by (auto simp: join_with_continuous_predictors_def Let_def list_ex_iff unemployment_join)
next
  fix mu sigma u
  assume "series_mean (map snd (continuous_predictors self)) = Some mu \<and>
      series_std (map snd (continuous_predictors self)) = Some sigma \<and> sigma \<noteq> 0"
  then show "stdz_unemployment self (Some u) = Some ((u - mu) / sigma)"
    by (simp add: stdz_unemployment_def float_div_def float_sub_def)
qed

lemma sample_quarters:
  "quarter_of 17277 = (2017, 2)" "quarter_of 17278 = (2017, 2)" "quarter_of 17279 = (2017, 2)"
  "quarter_of 19090 = (2022, 2)" "quarter_of 19091 = (2022, 2)" "quarter_of 19092 = (2022, 2)"
  "quarter_of 15000 = (2011, 1)"
  by code_simp+

lemma sample_joined:
  "joined_unemployment sample_self 17277 = Some (95 / 10)"
  "joined_unemployment sample_self 17278 = Some (95 / 10)"
  "joined_unemployment sample_self 17279 = Some (95 / 10)"
  "joined_unemployment sample_self 19090 = Some (74 / 10)"
  "joined_unemployment sample_self 19091 = Some (74 / 10)"
  "joined_unemployment sample_self 19092 = Some (74 / 10)"
  "joined_unemployment sample_self 15000 = None"
  by (simp_all add: joined_unemployment_def sample_self_def sample_quarters)

lemma sample_mean_std:
  "series_mean (map snd (continuous_predictors sample_self)) = Some 10"
  "series_std (map snd (continuous_predictors sample_self)) = Some 1"
  by (simp_all add: series_mean_def series_std_def dropna_def sample_self_def
      List.map_filter_simps)

theorem join_with_continuous_predictors_checks_witness:
  "list_all (\<lambda>r. joined_unemployment sample_self (date r) \<noteq> None) [oos_row_2022] \<and>
   series_mean (map snd (continuous_predictors sample_self)) = Some 10 \<and>
   series_std (map snd (continuous_predictors sample_self)) = Some 1 \<and>
   (1::real) \<noteq> 0 \<and>
   map_sum id (map unemployment) (join_with_continuous_predictors sample_self [oos_row_2022])
     = Inr [Some (- 26 / 10)] \<and>
   (\<exists>r \<in> set [oos_row_2022, oos_row_2011]. joined_unemployment sample_self (date r) = None) \<and>
   join_with_continuous_predictors sample_self [oos_row_2022, oos_row_2011] = Inl AssertionError"
proof -
  have d: "date oos_row_2022 = 19090" "date oos_row_2011 = 15000"
    by (simp_all add: oos_row_2022_def oos_row_2011_def oos_row_def)
  have ok: "\<forall>r \<in> set [oos_row_2022]. joined_unemployment sample_self (date r) \<noteq> None"
    by (simp add: d sample_joined del: not_None_eq)
  have bad: "\<exists>r \<in> set [oos_row_2022, oos_row_2011]. joined_unemployment sample_self (date r) = None"
    by (simp add: d sample_joined)
  note a = join_with_continuous_predictors_checks [of sample_self "[oos_row_2022]"]
  note b = join_with_continuous_predictors_checks [of sample_self "[oos_row_2022, oos_row_2011]"]
  have ne: "(1::real) \<noteq> 0"
    by simp
  from a sample_mean_std ne have s: "stdz_unemployment sample_self (Some (37 / 5)) = Some ((37 / 5 - 10) / 1)"
    by blast
  from a ok have "join_with_continuous_predictors sample_self [oos_row_2022] =
        Inr (map (\<lambda>r. (join_unemployment sample_self r)
               \<lparr>unemployment := stdz_unemployment sample_self (joined_unemployment sample_self (date r))\<rparr>)
             [oos_row_2022])"
    by blast
  then have 1: "map_sum id (map unemployment) (join_with_continuous_predictors sample_self [oos_row_2022])
     = Inr [Some (- 26 / 10)]"
    by (simp add: d sample_joined s)
  from b bad have 2: "join_with_continuous_predictors sample_self [oos_row_2022, oos_row_2011] =
      Inl AssertionError"
    by blast
  from ok have ok': "list_all (\<lambda>r. joined_unemployment sample_self (date r) \<noteq> None) [oos_row_2022]"
    by (simp only: list_all_iff)
  from ok' bad sample_mean_std ne 1 2 show ?thesis
    by blast
qed

section \<open>Verification: the coordinates of a forecast\<close>

lemma remdups_snoc: "remdups (ys @ [x]) = remdups (filter (\<lambda>y. y \<noteq> x) ys) @ [x]"
  by (induction ys) auto

lemma unique_Cons: "unique (x # xs) = x # unique (filter (\<lambda>y. y \<noteq> x) xs)"
  by (simp add: unique_def remdups_snoc rev_filter)

lemma unique_Nil: "unique [] = []"
  by (simp add: unique_def)

lemma set_unique: "set (unique xs) = set xs"
  by (simp add: unique_def)

lemma distinct_unique: "distinct (unique xs)"
  by (simp add: unique_def)

lemma filter_concat_replicate:
  "x \<notin> set xs \<Longrightarrow> filter (\<lambda>y. y \<noteq> x) (concat (map (replicate k) xs)) = concat (map (replicate k) xs)"
  by (induction xs) auto

lemma unique_concat_replicate:
  "distinct xs \<Longrightarrow> 0 < k \<Longrightarrow> unique (concat (map (replicate k) xs)) = xs"
proof (induction xs)
  case Nil
  then show ?case by (simp add: unique_Nil)
next
  case (Cons x xs)
  from Cons.prems obtain k' where k: "k = Suc k'"
    by (cases k) auto
  have "unique (concat (map (replicate k) (x # xs))) =
          x # unique (filter (\<lambda>y. y \<noteq> x) (replicate k' x @ concat (map (replicate k) xs)))"
    by (simp add: k unique_Cons)
  also have "filter (\<lambda>y. y \<noteq> x) (replicate k' x @ concat (map (replicate k) xs)) =
               concat (map (replicate k) xs)"
    using Cons.prems by (simp add: filter_concat_replicate)
  finally show ?case
    using Cons by simp
qed

lemma set_concat_replicate: "0 < n \<Longrightarrow> set (concat (replicate n xs)) = set xs"
  by (induction n) auto

lemma build_coords_eq:
  "build_coords data =
     (case map countdown data of
        [] \<Rightarrow> Inl ValueError
      | c # cs \<Rightarrow>
          Inr (map (index_of (sort (unique (map sondage data)))) (map sondage data),
               c # cs,
               map (index_of (unique (map dateelection data))) (map dateelection data),
               \<lparr>observations = [0..<length data],
                parties_complete = political_families,
                pollsters = sort (unique (map sondage data)),
                countdown_range = [0..fold max cs c],
                elections = unique (map dateelection data),
                elections_observed = butlast (unique (map dateelection data))\<rparr>))"
  by (simp add: build_coords_def factorize_def factorize_sorted_def split: list.splits)

lemma forecast_data_of_Inr:
  assumes "forecast_data_of self idata rng = Inr (new_dates, forecast_data)"
  shows "\<exists>oos_data. generate_oos_data self idata rng = Inr (new_dates, oos_data) \<and>
           map countdown forecast_data = map countdown oos_data \<and>
           map dateelection forecast_data = map dateelection oos_data \<and>
           map sondage forecast_data = map sondage oos_data \<and>
           map date forecast_data = map date oos_data \<and>
           map samplesize forecast_data = map samplesize oos_data \<and>
           (\<forall>r \<in> set forecast_data. \<forall>p. shares r p = 0)"
proof -
  from assms obtain oos_data oos_data'
    where g: "generate_oos_data self idata rng = Inr (new_dates, oos_data)"
      and j: "join_with_continuous_predictors self oos_data = Inr oos_data'"
      and f: "forecast_data = map placeholder oos_data'"
    by (auto simp: forecast_data_of_def split: sum.splits prod.splits)
  from j have j': "oos_data' = map (\<lambda>r. r\<lparr>unemployment := stdz_unemployment self (unemployment r)\<rparr>)
      (map (join_unemployment self) oos_data)"
    by (auto simp: join_with_continuous_predictors_def Let_def split: if_splits)
  show ?thesis
    using g by (auto simp: f j' placeholder_def join_unemployment_def comp_def)
qed

text \<open>
  Claim C3, as the code has it: \<open>build_model\<close> builds the coordinates from the table
  it is given, and \<open>forecast_election\<close> gives it the synthetic frame. That frame being
  generated from the training coordinates, the coordinates rebuilt from it have the
  countdown range, the elections, the observed elections and the families of the training
  coordinates; its pollsters are the sorted distinct pollsters drawn for the placeholder
  rows, a subset of the training pollsters.
\<close>

theorem forecast_election_rebuilds_coords:
  assumes train: "build_model self (None :: (int, int) prow list option)
                    (None :: (int, int) prow list option) = Inr train_model"
    and posterior: "posterior_countdown idata = countdown_range (coords train_model)"
      "posterior_elections idata = elections (coords train_model)"
    and init: "unique_elections self = unique (map dateelection (polls_train self))"
      "unique_pollsters self = unique (map sondage (polls_train self))"
    and frame: "forecast_data_of self idata rng = Inr (new_dates, forecast_data)"
  shows "\<exists>forecast_model.
           forecast_election self idata rng = Inr (new_dates, forecast_model) \<and>
           build_model self (Some forecast_data) (Some forecast_data) = Inr forecast_model \<and>
           observations (coords forecast_model) = [0..<length forecast_data] \<and>
           pollsters (coords forecast_model) = sort (unique (map sondage forecast_data)) \<and>
           set (pollsters (coords forecast_model)) \<subseteq> set (pollsters (coords train_model)) \<and>
           parties_complete (coords forecast_model) = parties_complete (coords train_model) \<and>
           countdown_range (coords forecast_model) = countdown_range (coords train_model) \<and>
           elections (coords forecast_model) = elections (coords train_model) \<and>
           elections_observed (coords forecast_model) = elections_observed (coords train_model)"
proof -
  let ?pt = "polls_train self"
  from train obtain c0 cs0 where c0: "map countdown ?pt = c0 # cs0"
    by (auto simp: build_model_def build_model_on_def build_coords_eq Let_def
        split: list.splits sum.splits prod.splits)
  define M where "M = fold max cs0 c0"
  from train c0 have tc: "pollsters (coords train_model) = sort (unique (map sondage ?pt))"
    "countdown_range (coords train_model) = [0..M]"
    "elections (coords train_model) = unique (map dateelection ?pt)"
    "elections_observed (coords train_model) = butlast (unique (map dateelection ?pt))"
    "parties_complete (coords train_model) = political_families"
    by (auto simp: build_model_def build_model_on_def build_coords_eq Let_def M_def
        split: list.splits sum.splits prod.splits)
  from forecast_data_of_Inr [OF frame] obtain oos_data
    where g: "generate_oos_data self idata rng = Inr (new_dates, oos_data)"
      and cols: "map countdown forecast_data = map countdown oos_data"
        "map dateelection forecast_data = map dateelection oos_data"
        "map sondage forecast_data = map sondage oos_data"
    by blast
  from generate_oos_data_Inr [OF g] obtain c cs
    where pc: "posterior_countdown idata = c # cs" "posterior_elections idata \<noteq> []"
      and oc: "map countdown oos_data =
                 concat (replicate (length (posterior_elections idata)) (rev (posterior_countdown idata)))"
        "map dateelection oos_data =
           concat (map (replicate (length (posterior_countdown idata))) (unique_elections self))"
        "set (map sondage oos_data) \<subseteq> set (unique_pollsters self)"
    by blast
  from pc(1) posterior(1) tc(2) have up: "[0..M] = c # cs"
    by simp
  then have M0: "0 \<le> M"
    by (cases "0 \<le> M") auto
  have ne: "0 < length (posterior_elections idata)"
    using pc(2) by simp
  have cd: "map countdown forecast_data = concat (replicate (length (posterior_elections idata)) (rev [0..M]))"
    using cols(1) oc(1) posterior(1) tc(2) by simp
  have cdset: "set (map countdown forecast_data) = {0..M}"
    unfolding cd using ne by (simp add: set_concat_replicate)
  obtain c' cs' where c': "map countdown forecast_data = c' # cs'"
    using cdset M0 by (cases "map countdown forecast_data") auto
  have "fold max cs' c' = Max (set (c' # cs'))"
    by (rule Max.set_eq_fold [symmetric])
  also have "\<dots> = Max {0..M}"
    using cdset c' by simp
  also have "\<dots> = M"
    using M0 by (intro Max_eqI) auto
  finally have fm: "fold max cs' c' = M" .
  have lpc: "0 < length (posterior_countdown idata)"
    using pc(1) by simp
  have el: "unique (map dateelection forecast_data) = unique (map dateelection ?pt)"
    using cols(2) oc(2) init(1) lpc by (simp add: unique_concat_replicate distinct_unique)
  have ps: "set (map sondage forecast_data) \<subseteq> set (map sondage ?pt)"
    using cols(3) oc(3) init(2) by (simp add: set_unique)
  define forecast_model where "forecast_model =
    \<lparr>coords = \<lparr>observations = [0..<length forecast_data],
                parties_complete = political_families,
                pollsters = sort (unique (map sondage forecast_data)),
                countdown_range = [0..M],
                elections = unique (map dateelection ?pt),
                elections_observed = butlast (unique (map dateelection ?pt))\<rparr>,
      containers = fst (build_data_containers self
        (map (index_of (sort (unique (map sondage forecast_data)))) (map sondage forecast_data),
         c' # cs',
         map (index_of (unique (map dateelection forecast_data))) (map dateelection forecast_data))
        forecast_data (map unemployment forecast_data)),
      non_competing_parties = snd (build_data_containers self
        (map (index_of (sort (unique (map sondage forecast_data)))) (map sondage forecast_data),
         c' # cs',
         map (index_of (unique (map dateelection forecast_data))) (map dateelection forecast_data))
        forecast_data (map unemployment forecast_data))\<rparr>"
  have bm: "build_model self (Some forecast_data) (Some forecast_data) = Inr forecast_model"
    by (simp add: build_model_def build_model_on_def build_coords_eq c' fm el forecast_model_def
        split: prod.splits)
  have fe: "forecast_election self idata rng = Inr (new_dates, forecast_model)"
    by (simp add: forecast_election_def frame bm)
  have sub: "set (pollsters (coords forecast_model)) \<subseteq> set (pollsters (coords train_model))"
    using ps by (simp add: forecast_model_def tc(1) set_unique)
  show ?thesis
    using fe bm sub by (intro exI [of _ forecast_model]) (simp add: forecast_model_def tc)
qed

lemma forecast_data_of_success:
  assumes "generate_oos_data self idata rng = Inr (new_dates, oos_data)"
    and "\<forall>d \<in> set new_dates. joined_unemployment self d \<noteq> None"
  shows "\<exists>forecast_data. forecast_data_of self idata rng = Inr (new_dates, forecast_data)"
proof -
  have "map date oos_data = new_dates"
    using generate_oos_data_Inr [OF assms(1)] by blast
  then have "\<forall>r \<in> set oos_data. joined_unemployment self (date r) \<noteq> None"
    using assms(2) by auto
  then have "\<not> list_ex (\<lambda>r. unemployment r = None) (map (join_unemployment self) oos_data)"
    by (simp add: list_ex_iff unemployment_join)
  then show ?thesis
    by (simp add: forecast_data_of_def assms(1) join_with_continuous_predictors_def Let_def)
qed

lemma sample_upto: "[0..2] = [0, 1, 2 :: int]"
  by code_simp

lemma sample_frame:
  "\<exists>forecast_data.
     forecast_data_of sample_self sample_idata rng =
       Inr ([17277, 17278, 17279, 19090, 19091, 19092], forecast_data) \<and>
     map sondage forecast_data =
       map (\<lambda>i. unique_pollsters sample_self ! (rng i mod length (unique_pollsters sample_self)))
         [0..<length (posterior_elections sample_idata) * (nat 2 + 1)]"
proof -
  have h: "posterior_countdown sample_idata = [0..2]" "(0::int) \<le> 2"
    "posterior_elections sample_idata \<noteq> []"
    "length (unique_elections sample_self) = length (posterior_elections sample_idata)"
    "unique_pollsters sample_self \<noteq> []" "results_oos sample_self \<noteq> []"
    by (simp_all add: sample_idata_def sample_self_def sample_results_oos_def sample_upto)
  from generate_oos_data_success [OF h, of rng] obtain oos_data
    where g: "generate_oos_data sample_self sample_idata rng =
                Inr (concat (map (\<lambda>d. [d - 2..d]) (posterior_elections sample_idata)), oos_data)"
      and s: "map sondage oos_data =
                map (\<lambda>i. unique_pollsters sample_self ! (rng i mod length (unique_pollsters sample_self)))
                  [0..<length (posterior_elections sample_idata) * (nat 2 + 1)]"
    by blast
  have u: "[17277..17279] = [17277, 17278, 17279 :: int]" "[19090..19092] = [19090, 19091, 19092 :: int]"
    by code_simp+
  have nd: "concat (map (\<lambda>d. [d - 2..d]) (posterior_elections sample_idata)) =
              [17277, 17278, 17279, 19090, 19091, 19092]"
    by (simp add: sample_idata_def u)
  have j: "\<forall>d \<in> set [17277, 17278, 17279, 19090, 19091, 19092 :: int].
             joined_unemployment sample_self d \<noteq> None"
    by (simp add: sample_joined del: not_None_eq)
  from forecast_data_of_success [OF g [unfolded nd] j] obtain forecast_data
    where f: "forecast_data_of sample_self sample_idata rng =
                Inr ([17277, 17278, 17279, 19090, 19091, 19092], forecast_data)"
    by blast
  from forecast_data_of_Inr [OF f] g [unfolded nd]
  have "map sondage forecast_data = map sondage oos_data"
    by auto
  with s f show ?thesis
    by (intro exI [of _ forecast_data]) (simp only: simp_thms)
qed


lemma forecast_election_pollsters:
  assumes "forecast_data_of self idata rng = Inr (new_dates, forecast_data)"
  shows "map_sum id (pollsters \<circ> coords \<circ> snd) (forecast_election self idata rng) =
           Inr (sort (unique (map sondage forecast_data)))"
proof -
  from forecast_data_of_Inr [OF assms] obtain oos_data
    where g: "generate_oos_data self idata rng = Inr (new_dates, oos_data)"
      and cols: "map countdown forecast_data = map countdown oos_data"
    by blast
  from generate_oos_data_Inr [OF g] obtain c cs
    where pc: "posterior_countdown idata = c # cs" "posterior_elections idata \<noteq> []"
      and oc: "map countdown oos_data =
                 concat (replicate (length (posterior_elections idata)) (rev (posterior_countdown idata)))"
    by blast
  from pc have "set (map countdown forecast_data) = set (posterior_countdown idata)"
    unfolding cols oc by (simp add: set_concat_replicate del: set_concat)
  with pc(1) obtain c' cs' where "map countdown forecast_data = c' # cs'"
    by (cases "map countdown forecast_data") auto
  then show ?thesis
    by (simp add: forecast_election_def assms build_model_def build_model_on_def build_coords_eq
        split: prod.splits)
qed

theorem forecast_election_rebuilds_coords_witness:
  "\<exists>train_model new_dates forecast_data forecast_model.
     build_model sample_self (None :: (int, int) prow list option)
       (None :: (int, int) prow list option) = Inr train_model \<and>
     posterior_countdown sample_idata = countdown_range (coords train_model) \<and>
     posterior_elections sample_idata = elections (coords train_model) \<and>
     unique_elections sample_self = unique (map dateelection (polls_train sample_self)) \<and>
     unique_pollsters sample_self = unique (map sondage (polls_train sample_self)) \<and>
     forecast_data_of sample_self sample_idata (\<lambda>i. i) = Inr (new_dates, forecast_data) \<and>
     forecast_election sample_self sample_idata (\<lambda>i. i) = Inr (new_dates, forecast_model) \<and>
     pollsters (coords train_model) = [''BVA'', ''Ifop''] \<and>
     pollsters (coords forecast_model) = [''BVA'', ''Ifop''] \<and>
     countdown_range (coords forecast_model) = [0, 1, 2] \<and>
     elections (coords forecast_model) = [17279, 19092] \<and>
     elections_observed (coords forecast_model) = [17279]"
proof -
  have "map_sum id coords (build_model sample_self (None :: (int, int) prow list option)
          (None :: (int, int) prow list option)) =
        Inr \<lparr>observations = [0, 1, 2], parties_complete = political_families,
             pollsters = [''BVA'', ''Ifop''], countdown_range = [0, 1, 2],
             elections = [17279, 19092], elections_observed = [17279]\<rparr>"
    by code_simp
  then obtain train_model
    where tm: "build_model sample_self (None :: (int, int) prow list option)
                 (None :: (int, int) prow list option) = Inr train_model"
      and tc: "coords train_model =
                 \<lparr>observations = [0, 1, 2], parties_complete = political_families,
                  pollsters = [''BVA'', ''Ifop''], countdown_range = [0, 1, 2],
                  elections = [17279, 19092], elections_observed = [17279]\<rparr>"
    by (cases "build_model sample_self (None :: (int, int) prow list option)
          (None :: (int, int) prow list option)") auto
  have post: "posterior_countdown sample_idata = countdown_range (coords train_model)"
    "posterior_elections sample_idata = elections (coords train_model)"
    by (simp_all add: tc sample_idata_def)
  have init: "unique_elections sample_self = unique (map dateelection (polls_train sample_self))"
    "unique_pollsters sample_self = unique (map sondage (polls_train sample_self))"
    by code_simp+
  from sample_frame [of "\<lambda>i. i"] obtain forecast_data
    where f: "forecast_data_of sample_self sample_idata (\<lambda>i. i) =
                Inr ([17277, 17278, 17279, 19090, 19091, 19092], forecast_data)"
      and s: "map sondage forecast_data =
                map (\<lambda>i. unique_pollsters sample_self ! (i mod length (unique_pollsters sample_self)))
                  [0..<length (posterior_elections sample_idata) * (nat 2 + 1)]"
    by blast
  have p: "sort (unique (map (\<lambda>i. unique_pollsters sample_self ! (i mod length (unique_pollsters sample_self)))
             [0..<length (posterior_elections sample_idata) * (nat 2 + 1)])) = [''BVA'', ''Ifop'']"
    by code_simp
  from forecast_election_rebuilds_coords [OF tm post init f] obtain forecast_model
    where fm: "forecast_election sample_self sample_idata (\<lambda>i. i) =
                 Inr ([17277, 17278, 17279, 19090, 19091, 19092], forecast_model)"
      "pollsters (coords forecast_model) = sort (unique (map sondage forecast_data))"
      "countdown_range (coords forecast_model) = countdown_range (coords train_model)"
      "elections (coords forecast_model) = elections (coords train_model)"
      "elections_observed (coords forecast_model) = elections_observed (coords train_model)"
    by blast
  have r: "pollsters (coords train_model) = [''BVA'', ''Ifop'']"
    "pollsters (coords forecast_model) = [''BVA'', ''Ifop'']"
    "countdown_range (coords forecast_model) = [0, 1, 2]"
    "elections (coords forecast_model) = [17279, 19092]"
    "elections_observed (coords forecast_model) = [17279]"
    by (simp_all only: fm(2,3,4,5) s p tc coordinates.simps)
  from tm post init f fm(1) r show ?thesis
    by blast
qed

text \<open>
  The claim as the specification words it (the coordinates are never rebuilt from later
  data) fails when the draws of the placeholder pollsters miss a training pollster: the
  forecast model then has a shorter pollster coordinate than the training model.
\<close>

theorem forecast_election_rebuilds_coords_counterexample:
  "map_sum id (pollsters \<circ> coords)
     (build_model sample_self (None :: (int, int) prow list option)
        (None :: (int, int) prow list option)) = Inr [''BVA'', ''Ifop''] \<and>
   map_sum id (pollsters \<circ> coords \<circ> snd) (forecast_election sample_self sample_idata (\<lambda>i. 0)) =
     Inr [''Ifop'']"
proof -
  have a: "map_sum id (pollsters \<circ> coords)
     (build_model sample_self (None :: (int, int) prow list option)
        (None :: (int, int) prow list option)) = Inr [''BVA'', ''Ifop'']"
    by code_simp
  from sample_frame [of "\<lambda>i. 0"] obtain forecast_data
    where f: "forecast_data_of sample_self sample_idata (\<lambda>i. 0) =
                Inr ([17277, 17278, 17279, 19090, 19091, 19092], forecast_data)"
      and s: "map sondage forecast_data =
                map (\<lambda>i. unique_pollsters sample_self ! (0 mod length (unique_pollsters sample_self)))
                  [0..<length (posterior_elections sample_idata) * (nat 2 + 1)]"
    by blast
  have p: "sort (unique (map (\<lambda>i. unique_pollsters sample_self ! (0 mod length (unique_pollsters sample_self)))
             [0..<length (posterior_elections sample_idata) * (nat 2 + 1)])) = [''Ifop'']"
    by code_simp
  from forecast_election_pollsters [OF f] a show ?thesis
    by (simp only: s p simp_thms)
qed

section \<open>Verification: the result likelihood\<close>

text \<open>
  The poll-level table that stands for election day: one observation per election of the
  coordinates, at countdown index 0, with the election's predictor and the penalties of
  the result rows.
\<close>

definition at_election_day :: "pm_model \<Rightarrow> pm_model" where
  "at_election_day M =
     M\<lparr>coords := (coords M)\<lparr>observations := [0..<length (elections (coords M))]\<rparr>,
       containers := (containers M)
         \<lparr>election_idx := [0..<length (elections (coords M))],
          countdown_idx := replicate (length (elections (coords M))) 0,
          stdz_unemp := election_unemp (containers M)\<rparr>,
       non_competing_parties := (non_competing_parties M)
         \<lparr>polls_additive := results (non_competing_parties M)\<rparr>\<rparr>"

lemma latent_mu_t0_nth:
  "e < length (elections (coords M)) \<Longrightarrow> p < length (parties_complete (coords M)) \<Longrightarrow>
   latent_mu_t0 \<theta> M ! e ! p =
     float_add
       (float_add
          (Some (party_baseline \<theta> ! p + election_party_baseline \<theta> ! e ! p
                 + party_time_effect \<theta> ! 0 ! p + election_party_time_effect \<theta> ! 0 ! p ! e))
          (float_mul (election_unemp (containers M) ! e) (Some (unemployment_effect \<theta> ! p))))
       (Some (real_of_int (results (non_competing_parties M) ! e ! p)))"
  by (simp add: latent_mu_t0_def)

lemma length_latent_pop_t0: "length (latent_pop_t0 \<theta> M) = length (elections (coords M))"
  by (simp add: latent_pop_t0_def latent_mu_t0_def)

lemma R_a_nth:
  assumes "e < length (elections (coords M)) - 1"
  shows "dm_a (R \<theta> M) ! e =
           map (float_mul (Some (concentration_results \<theta>))) (softmax (latent_mu_t0 \<theta> M ! e))"
proof -
  have e: "e < length (latent_pop_t0 \<theta> M)" "e < length (butlast (latent_pop_t0 \<theta> M))"
    using assms by (simp_all add: length_latent_pop_t0)
  have "dm_a (R \<theta> M) ! e = map (float_mul (Some (concentration_results \<theta>))) (butlast (latent_pop_t0 \<theta> M) ! e)"
    using e(2) by (simp add: R_def)
  also have "butlast (latent_pop_t0 \<theta> M) ! e = latent_pop_t0 \<theta> M ! e"
    using e(2) by (simp add: nth_butlast)
  also have "\<dots> = softmax (latent_mu_t0 \<theta> M ! e)"
    using e(1) by (simp add: latent_pop_t0_def)
  finally show ?thesis .
qed

lemma length_softmax: "length (softmax xs) = length xs"
  by (simp add: softmax_def)

lemma latent_mu_t0_no_pollster:
  "latent_mu_t0 (\<theta>\<lparr>poll_bias := b, house_effects := h, house_election_effects := he,
                  concentration_polls := c\<rparr>) M = latent_mu_t0 \<theta> M"
  by (simp add: latent_mu_t0_def)

lemma latent_mu_at_election_day: "latent_mu \<theta> (at_election_day M) = latent_mu_t0 \<theta> M"
  by (simp add: latent_mu_def latent_mu_0_def latent_mu_t0_def at_election_day_def np_take_def)

text \<open>
  Claim C6: the node \<open>R\<close> has one concentration vector per election of the coordinates
  but the last, namely \<open>concentration_results\<close> times the softmax of
  \<open>latent_mu_t0\<close>, whose cells are the latent structure of the polls taken at countdown
  index 0 (\<open>latent_mu\<close> on the election-day table); it does not depend on the poll
  bias, the house effects or \<open>concentration_polls\<close>, and the poll node does not depend
  on \<open>concentration_results\<close>; in a model \<open>build_model\<close> builds it is observed
  against the trial counts and the vote counts of \<open>results_oos\<close>, one row per observed
  election.
\<close>

theorem result_likelihood_structure:
  "length (dm_a (R \<theta> M)) = length (elections (coords M)) - 1 \<and>
   (\<forall>e < length (elections (coords M)) - 1. \<forall>p < length (parties_complete (coords M)).
      dm_a (R \<theta> M) ! e ! p =
        float_mul (Some (concentration_results \<theta>)) (softmax (latent_mu_t0 \<theta> M ! e) ! p) \<and>
      latent_mu_t0 \<theta> M ! e ! p =
        float_add
          (float_add
             (Some (party_baseline \<theta> ! p + election_party_baseline \<theta> ! e ! p
                    + party_time_effect \<theta> ! 0 ! p + election_party_time_effect \<theta> ! 0 ! p ! e))
             (float_mul (election_unemp (containers M) ! e) (Some (unemployment_effect \<theta> ! p))))
          (Some (real_of_int (results (non_competing_parties M) ! e ! p)))) \<and>
   latent_mu_t0 \<theta> M = latent_mu \<theta> (at_election_day M) \<and>
   R (\<theta>\<lparr>poll_bias := b, house_effects := h, house_election_effects := he,
         concentration_polls := c\<rparr>) M = R \<theta> M \<and>
   N_approve (\<theta>\<lparr>concentration_results := c'\<rparr>) M = N_approve \<theta> M \<and>
   (\<forall>self polls campaign_unemployment.
      build_model_on self (polls :: (int, int) prow list) campaign_unemployment = Inr M \<longrightarrow>
        length (dm_a (R \<theta> M)) = length (elections_observed (coords M)) \<and>
        dm_n (R \<theta> M) = map samplesize (results_oos self) \<and>
        dm_observed (R \<theta> M) = family_columns (results_oos self))"
proof (intro conjI allI impI)
  show "length (dm_a (R \<theta> M)) = length (elections (coords M)) - 1"
    by (simp add: R_def length_latent_pop_t0)
next
  fix e p
  assume e: "e < length (elections (coords M)) - 1" and p: "p < length (parties_complete (coords M))"
  have e': "e < length (elections (coords M))"
    using e by simp
  have "length (latent_mu_t0 \<theta> M ! e) = length (parties_complete (coords M))"
    using e' by (simp add: latent_mu_t0_def)
  then show "dm_a (R \<theta> M) ! e ! p =
        float_mul (Some (concentration_results \<theta>)) (softmax (latent_mu_t0 \<theta> M ! e) ! p)"
    using p by (simp add: R_a_nth [OF e] length_softmax)
  show "latent_mu_t0 \<theta> M ! e ! p =
        float_add
          (float_add
             (Some (party_baseline \<theta> ! p + election_party_baseline \<theta> ! e ! p
                    + party_time_effect \<theta> ! 0 ! p + election_party_time_effect \<theta> ! 0 ! p ! e))
             (float_mul (election_unemp (containers M) ! e) (Some (unemployment_effect \<theta> ! p))))
          (Some (real_of_int (results (non_competing_parties M) ! e ! p)))"
    using e' p by (rule latent_mu_t0_nth)
next
  show "latent_mu_t0 \<theta> M = latent_mu \<theta> (at_election_day M)"
    by (rule latent_mu_at_election_day [symmetric])
next
  show "R (\<theta>\<lparr>poll_bias := b, house_effects := h, house_election_effects := he,
         concentration_polls := c\<rparr>) M = R \<theta> M"
    by (simp add: R_def latent_pop_t0_def latent_mu_t0_no_pollster)
next
  show "N_approve (\<theta>\<lparr>concentration_results := c'\<rparr>) M = N_approve \<theta> M"
    by (simp add: N_approve_def noisy_popularity_def noisy_mu_def latent_mu_def latent_mu_0_def)
next
  fix self and polls :: "(int, int) prow list" and campaign_unemployment
  assume b: "build_model_on self polls campaign_unemployment = Inr M"
  then have c: "elections_observed (coords M) = butlast (elections (coords M))"
    "results_N (containers M) = map samplesize (results_oos self)"
    "observed_results (containers M) = family_columns (results_oos self)"
    by (auto simp: build_model_on_def build_coords_eq build_data_containers_def Let_def
        split: list.splits sum.splits prod.splits)
  show "length (dm_a (R \<theta> M)) = length (elections_observed (coords M))"
    by (simp add: R_def length_latent_pop_t0 c(1))
  show "dm_n (R \<theta> M) = map samplesize (results_oos self)"
    by (simp add: R_def c(2))
  show "dm_observed (R \<theta> M) = family_columns (results_oos self)"
    by (simp add: R_def c(3))
qed

lemma sample_model:
  "\<exists>M. build_model_on sample_self sample_polls_train [] = Inr M \<and>
     coords M = \<lparr>observations = [0, 1, 2], parties_complete = political_families,
                 pollsters = [''BVA'', ''Ifop''], countdown_range = [0, 1, 2],
                 elections = [17279, 19092], elections_observed = [17279]\<rparr> \<and>
     results (non_competing_parties M) =
       [[0, 0, - 10, 0, 0, 0, 0, 0], [- 10, - 10, - 10, - 10, - 10, - 10, - 10, - 10]] \<and>
     election_unemp (containers M) = [Some (1 / 2), Some (- 1 / 2)]"
proof -
  have "map_sum id (\<lambda>M. (coords M, results (non_competing_parties M)))
          (build_model_on sample_self sample_polls_train []) =
        Inr (\<lparr>observations = [0, 1, 2], parties_complete = political_families,
               pollsters = [''BVA'', ''Ifop''], countdown_range = [0, 1, 2],
               elections = [17279, 19092], elections_observed = [17279]\<rparr>,
             [[0, 0, - 10, 0, 0, 0, 0, 0], [- 10, - 10, - 10, - 10, - 10, - 10, - 10, - 10]])"
    by code_simp
  then obtain M where M: "build_model_on sample_self sample_polls_train [] = Inr M"
    "coords M = \<lparr>observations = [0, 1, 2], parties_complete = political_families,
                 pollsters = [''BVA'', ''Ifop''], countdown_range = [0, 1, 2],
                 elections = [17279, 19092], elections_observed = [17279]\<rparr>"
    "results (non_competing_parties M) =
       [[0, 0, - 10, 0, 0, 0, 0, 0], [- 10, - 10, - 10, - 10, - 10, - 10, - 10, - 10]]"
    by (cases "build_model_on sample_self sample_polls_train []") auto
  from M(1) have "election_unemp (containers M) = map snd (results_preds sample_self)"
    by (auto simp: build_model_on_def build_data_containers_def Let_def
        split: sum.splits prod.splits)
  then have "election_unemp (containers M) = [Some (1 / 2), Some (- 1 / 2)]"
    by (simp add: sample_self_def)
  with M show ?thesis
    by blast
qed

theorem result_likelihood_structure_witness:
  "\<exists>M. build_model_on sample_self sample_polls_train [] = Inr M \<and>
     (0::nat) < length (elections (coords M)) - 1 \<and>
     (2::nat) < length (parties_complete (coords M)) \<and>
     length (dm_a (R sample_params M)) = 1 \<and>
     dm_a (R sample_params M) ! 0 ! 2 =
       float_mul (Some 900) (softmax (latent_mu_t0 sample_params M ! 0) ! 2) \<and>
     latent_mu_t0 sample_params M ! 0 ! 2 = Some (- 89 / 16) \<and>
     dm_n (R sample_params M) = map samplesize (results_oos sample_self) \<and>
     dm_observed (R sample_params M) = family_columns (results_oos sample_self) \<and>
     R (sample_params\<lparr>poll_bias := [], house_effects := [], house_election_effects := [],
          concentration_polls := 1\<rparr>) M = R sample_params M"
proof -
  from sample_model obtain M where M: "build_model_on sample_self sample_polls_train [] = Inr M"
    "coords M = \<lparr>observations = [0, 1, 2], parties_complete = political_families,
                 pollsters = [''BVA'', ''Ifop''], countdown_range = [0, 1, 2],
                 elections = [17279, 19092], elections_observed = [17279]\<rparr>"
    "results (non_competing_parties M) =
       [[0, 0, - 10, 0, 0, 0, 0, 0], [- 10, - 10, - 10, - 10, - 10, - 10, - 10, - 10]]"
    "election_unemp (containers M) = [Some (1 / 2), Some (- 1 / 2)]"
    by blast
  have e: "(0::nat) < length (elections (coords M)) - 1"
    and p: "(2::nat) < length (parties_complete (coords M))"
    by (simp_all add: M(2) political_families_def)
  note s = result_likelihood_structure
    [where \<theta> = sample_params and M = M and b = "[]" and h = "[]" and he = "[]" and c = 1 and c' = 0]
  from s have len: "length (dm_a (R sample_params M)) = length (elections (coords M)) - 1"
    by blast
  from s e p have a: "dm_a (R sample_params M) ! 0 ! 2 =
       float_mul (Some (concentration_results sample_params))
         (softmax (latent_mu_t0 sample_params M ! 0) ! 2)"
    and l: "latent_mu_t0 sample_params M ! 0 ! 2 =
        float_add
          (float_add
             (Some (party_baseline sample_params ! 2 + election_party_baseline sample_params ! 0 ! 2
                    + party_time_effect sample_params ! 0 ! 2
                    + election_party_time_effect sample_params ! 0 ! 2 ! 0))
             (float_mul (election_unemp (containers M) ! 0)
                (Some (unemployment_effect sample_params ! 2))))
          (Some (real_of_int (results (non_competing_parties M) ! 0 ! 2)))"
    by blast+
  from s M(1) have b: "dm_n (R sample_params M) = map samplesize (results_oos sample_self)"
    "dm_observed (R sample_params M) = family_columns (results_oos sample_self)"
    by blast+
  from s have i: "R (sample_params\<lparr>poll_bias := [], house_effects := [], house_election_effects := [],
          concentration_polls := 1\<rparr>) M = R sample_params M"
    by blast
  have l': "latent_mu_t0 sample_params M ! 0 ! 2 = Some (- 89 / 16)"
    by (subst l) (simp add: M(3,4) sample_params_def float_add_def float_mul_def)
  have a': "dm_a (R sample_params M) ! 0 ! 2 =
       float_mul (Some 900) (softmax (latent_mu_t0 sample_params M ! 0) ! 2)"
    by (subst a) (simp add: sample_params_def)
  have len': "length (dm_a (R sample_params M)) = 1"
    by (simp add: len M(2))
  from M(1) e p len' a' l' b i show ?thesis
    by blast
qed

section \<open>Verification: non-competing families\<close>

lemma build_model_on_Inr:
  assumes "build_model_on self polls campaign_unemployment = Inr M"
  shows "observations (coords M) = [0..<length polls]"
    and "parties_complete (coords M) = political_families"
    and "polls_multiplicative (non_competing_parties M) =
           map (map astype_bool_int) (family_columns polls)"
    and "polls_additive (non_competing_parties M) =
           map (map (replace 1 0 \<circ> replace 0 (- 10))) (map (map astype_bool_int) (family_columns polls))"
    and "results (non_competing_parties M) =
           map (map (replace 1 0 \<circ> replace 0 (- 10) \<circ> astype_bool_int))
             (family_columns (results_mult self))"
  using assms
  by (auto simp: build_model_on_def build_coords_eq build_data_containers_def Let_def
      split: list.splits sum.splits prod.splits)

lemma family_columns_nth:
  "i < length df \<Longrightarrow> j < length political_families \<Longrightarrow>
     family_columns df ! i ! j = shares (df ! i) (political_families ! j)"
  by (simp add: family_columns_def)

lemma family_columns_length:
  "length (family_columns df) = length df"
  "i < length df \<Longrightarrow> length (family_columns df ! i) = length political_families"
  by (simp_all add: family_columns_def)

text \<open>
  Claim C10: in a model \<open>build_model\<close> builds on a table of counts, the additive
  penalty of a cell is -10 and its house-effect multiplier 0 exactly when the count of
  the cell is 0, and the penalty is 0 and the multiplier 1 otherwise; \<open>latent_mu\<close> and
  \<open>noisy_mu\<close> apply them so, and the penalties of the result rows follow the same
  rule. For a poll that comes out of the multinomial encoder, the penalty is -10 exactly
  when the encoded count is 0, whatever the share was.
\<close>

theorem non_competing_iff_zero_count:
  assumes "build_model_on self polls campaign_unemployment = Inr M"
    and "i < length polls" and "j < length political_families"
  shows "polls_additive (non_competing_parties M) ! i ! j =
           (if shares (polls ! i) (political_families ! j) = 0 then - 10 else 0) \<and>
         polls_multiplicative (non_competing_parties M) ! i ! j =
           (if shares (polls ! i) (political_families ! j) = 0 then 0 else 1) \<and>
         latent_mu \<theta> M ! i ! j =
           float_add (latent_mu_0 \<theta> M ! i ! j)
             (Some (if shares (polls ! i) (political_families ! j) = 0 then - 10 else 0)) \<and>
         noisy_mu \<theta> M ! i ! j =
           float_add
             (float_add
                (float_add (latent_mu \<theta> M ! i ! j) (Some (poll_bias \<theta> ! j)))
                (Some (house_effects \<theta> ! (pollster_idx (containers M) ! i) ! j)))
             (Some (if shares (polls ! i) (political_families ! j) = 0 then 0
                    else house_election_effects \<theta> ! (pollster_idx (containers M) ! i) ! j
                           ! (election_idx (containers M) ! i))) \<and>
         (\<forall>e < length (results_mult self).
            results (non_competing_parties M) ! e ! j =
              (if shares (results_mult self ! e) (political_families ! j) = 0 then - 10 else 0)) \<and>
         (\<forall>r. shares (polls ! i) = shares (cast_row r) \<longrightarrow>
            (polls_additive (non_competing_parties M) ! i ! j = - 10 \<longleftrightarrow>
               share_count (shares r (political_families ! j)) (samplesize r) = 0))"
proof -
  note b = build_model_on_Inr [OF assms(1)]
  have add: "polls_additive (non_competing_parties M) ! i ! j =
           (if shares (polls ! i) (political_families ! j) = 0 then - 10 else 0)"
    using assms(2,3)
    by (simp add: b(4) family_columns_length family_columns_nth astype_bool_int_def replace_def)
  have mul: "polls_multiplicative (non_competing_parties M) ! i ! j =
           (if shares (polls ! i) (political_families ! j) = 0 then 0 else 1)"
    using assms(2,3)
    by (simp add: b(3) family_columns_length family_columns_nth astype_bool_int_def)
  have lm: "latent_mu \<theta> M ! i ! j =
           float_add (latent_mu_0 \<theta> M ! i ! j)
             (Some (if shares (polls ! i) (political_families ! j) = 0 then - 10 else 0))"
    using assms(2,3) by (simp add: latent_mu_def b(1,2) add)
  have nm: "noisy_mu \<theta> M ! i ! j =
           float_add
             (float_add
                (float_add (latent_mu \<theta> M ! i ! j) (Some (poll_bias \<theta> ! j)))
                (Some (house_effects \<theta> ! (pollster_idx (containers M) ! i) ! j)))
             (Some (if shares (polls ! i) (political_families ! j) = 0 then 0
                    else house_election_effects \<theta> ! (pollster_idx (containers M) ! i) ! j
                           ! (election_idx (containers M) ! i)))"
    using assms(2,3) by (simp add: noisy_mu_def b(1,2) mul)
  have res: "\<forall>e < length (results_mult self).
            results (non_competing_parties M) ! e ! j =
              (if shares (results_mult self ! e) (political_families ! j) = 0 then - 10 else 0)"
    using assms(3)
    by (simp add: b(5) family_columns_length family_columns_nth astype_bool_int_def replace_def)
  have cast: "\<forall>r. shares (polls ! i) = shares (cast_row r) \<longrightarrow>
            (polls_additive (non_competing_parties M) ! i ! j = - 10 \<longleftrightarrow>
               share_count (shares r (political_families ! j)) (samplesize r) = 0)"
    by (simp add: add cast_row_def)
  from add mul lm nm res cast show ?thesis
    by blast
qed

lemma sample_share_counts:
  "share_count (Some 24) (Some 1000) = 240" "share_count (Some 22) (Some 1000) = 220"
  "share_count (Some (1 / 25)) (Some 1000) = 0" "share_count (Some (54 / 5)) (Some 1000) = 108"
  by code_simp+

lemma sample_cast_shares: "shares (sample_polls_train ! 0) = shares (cast_row sample_share_row)"
proof
  fix p show "shares (sample_polls_train ! 0) p = shares (cast_row sample_share_row) p"
    by (cases p)
      (simp_all add: sample_polls_train_def cast_row_def sample_share_row_def sample_share_counts)
qed

theorem non_competing_iff_zero_count_witness:
  "\<exists>M. build_model_on sample_self sample_polls_train [] = Inr M \<and>
     (0::nat) < length sample_polls_train \<and> (7::nat) < length political_families \<and>
     (1::nat) < length (results_mult sample_self) \<and>
     shares (sample_polls_train ! 0) (political_families ! 7) = 0 \<and>
     polls_additive (non_competing_parties M) ! 0 ! 7 = - 10 \<and>
     polls_multiplicative (non_competing_parties M) ! 0 ! 7 = 0 \<and>
     latent_mu sample_params M ! 0 ! 7 = float_add (latent_mu_0 sample_params M ! 0 ! 7) (Some (- 10)) \<and>
     results (non_competing_parties M) ! 1 ! 7 = - 10 \<and>
     shares (sample_polls_train ! 0) = shares (cast_row sample_share_row) \<and>
     shares sample_share_row (political_families ! 7) = Some (1 / 25) \<and>
     share_count (shares sample_share_row (political_families ! 7)) (samplesize sample_share_row) = 0"
proof -
  from sample_model obtain M where M: "build_model_on sample_self sample_polls_train [] = Inr M"
    by blast
  have i: "(0::nat) < length sample_polls_train" and j: "(7::nat) < length political_families"
    and e: "(1::nat) < length (results_mult sample_self)"
    by (simp_all add: sample_polls_train_def political_families_def sample_self_def
        sample_results_mult_def)
  have z: "shares (sample_polls_train ! 0) (political_families ! 7) = 0"
    "shares (results_mult sample_self ! 1) (political_families ! 7) = 0"
    by (simp_all add: sample_polls_train_def political_families_def sample_self_def
        sample_results_mult_def)
  have sr: "shares sample_share_row (political_families ! 7) = Some (1 / 25)"
    by (simp add: sample_share_row_def political_families_def)
  note t = non_competing_iff_zero_count [OF M i j, where \<theta> = sample_params]
  from t z(1) have 1: "polls_additive (non_competing_parties M) ! 0 ! 7 = - 10"
    "polls_multiplicative (non_competing_parties M) ! 0 ! 7 = 0"
    "latent_mu sample_params M ! 0 ! 7 = float_add (latent_mu_0 sample_params M ! 0 ! 7) (Some (- 10))"
    by simp_all
  from t e z(2) have 2: "results (non_competing_parties M) ! 1 ! 7 = - 10"
    by simp
  from t sample_cast_shares 1(1)
  have 3: "share_count (shares sample_share_row (political_families ! 7)) (samplesize sample_share_row) = 0"
    by blast
  from M i j e z(1) 1 2 3 sample_cast_shares sr show ?thesis
    by blast
qed

end
